theory Spec2Isabelle
  imports Complex_Main "HOL-Library.Word" "HOL-Library.Sublist"
    "HOL-Library.Char_ord" "HOL-Library.List_Lexorder"
begin

section \<open>PyForgee build orchestration: shared vocabulary\<close>

text \<open>
  The development embeds the core modules of PyForgee
  (\<^verbatim>\<open>compiler_engine.py\<close>, \<^verbatim>\<open>compression_handler.py\<close>,
  \<^verbatim>\<open>protection_manager.py\<close>, \<^verbatim>\<open>dependency_analyzer.py\<close>).
  Python exceptions are values of \<open>py_error\<close>; a function that may raise returns
  \<open>py_error + 'a\<close> with \<open>Inl\<close> for the exception. File contents are byte lists.
\<close>

datatype py_error =
    RuntimeError string
  | ValueError string
  | TypeError string
  | AttributeError string
  | FileNotFoundError string
  | FileExistsError string
  | OSError string
  | ZeroDivisionError
  | StructError string
  | OverflowError string

text \<open>\<^verbatim>\<open>str(e)\<close> of a caught exception: the message it was raised with.\<close>

fun str_of_error :: "py_error \<Rightarrow> string" where
  "str_of_error (RuntimeError m) = m"
| "str_of_error (ValueError m) = m"
| "str_of_error (TypeError m) = m"
| "str_of_error (AttributeError m) = m"
| "str_of_error (FileNotFoundError m) = m"
| "str_of_error (FileExistsError m) = m"
| "str_of_error (OSError m) = m"
| "str_of_error ZeroDivisionError = ''division by zero''"
| "str_of_error (StructError m) = m"
| "str_of_error (OverflowError m) = m"

text \<open>A name between single quotes, as the interpreter's messages print it.\<close>

definition quoted :: "string \<Rightarrow> string" where
  "quoted s = CHR 0x27 # s @ [CHR 0x27]"

text \<open>The message of the \<^verbatim>\<open>FileNotFoundError\<close> that opening or inspecting a missing path raises.\<close>

definition no_such_file :: "string \<Rightarrow> string" where
  "no_such_file p = ''[Errno 2] No such file or directory: '' @ quoted p"

type_synonym byte = "8 word"

section \<open>Compression results\<close>

text \<open>
  \<^verbatim>\<open>compression_handler.py\<close>: the method enum, the options and the result. The
  options' field \<^verbatim>\<open>method\<close> is written \<open>method'\<close> (the plain word is reserved).
\<close>

datatype CompressionMethod = UPX | LZMA | BROTLI | GZIP | CUSTOM | AUTO

record CompressionOptions =
  method' :: CompressionMethod
  level :: int
  preserve_resources :: bool
  backup_original :: bool
  upx_ultra_brute :: bool
  upx_compress_icons :: bool
  upx_strip_relocs :: bool
  lzma_preset :: int
  lzma_check :: int
  brotli_quality :: int
  brotli_window_bits :: int
  custom_algorithm :: "string option"
  exclude_patterns :: "string list option"

text \<open>
  \<^verbatim>\<open>CompressionResult\<close> as the dataclass declares it. Sizes are Python ints; the ratio
  and the time are Python floats. \<open>warnings\<close> is \<open>None\<close> until \<^verbatim>\<open>__post_init__\<close>
  replaces it.
\<close>

record CompressionResult =
  success :: bool
  original_size :: int
  compressed_size :: int
  compression_ratio :: real
  compression_time :: real
  method_used :: "CompressionMethod option"
  output_path :: "string option"
  error_message :: "string option"
  warnings :: "string list option"

text \<open>
  Python floats are IEEE doubles, read here as the real numbers they denote; comparisons
  of doubles are then comparisons of reals. The rounding done by each floating-point
  operation is the host's and is not defined here: the operations the code uses are
  taken from the host. \<open>fl_truediv a b\<close> is the double that \<^verbatim>\<open>a / b\<close> gives for two
  ints with a non-zero divisor and a quotient in range, \<open>fl_log2\<close> is
  \<^verbatim>\<open>math.log2\<close>, \<open>fl_mul\<close> and \<open>fl_sub\<close> are the product and the difference of two
  floats.
\<close>

record float_ops =
  fl_truediv :: "int \<Rightarrow> int \<Rightarrow> real"
  fl_log2 :: "real \<Rightarrow> real"
  fl_mul :: "real \<Rightarrow> real \<Rightarrow> real"
  fl_sub :: "real \<Rightarrow> real \<Rightarrow> real"

text \<open>
  The quotient of two ints is too large for a double when its nearest double would be
  \<open>2 ^ 1024\<close> or beyond, that is from the midpoint between the largest double and
  \<open>2 ^ 1024\<close> on.
\<close>

definition true_division_overflows :: "int \<Rightarrow> int \<Rightarrow> bool" where
  "true_division_overflows a b = (2 ^ 1024 - 2 ^ 970 \<le> \<bar>real_of_int a / real_of_int b\<bar>)"

text \<open>
  Python's \<^verbatim>\<open>a / b\<close> on ints: raises on a zero divisor and on a quotient too large
  for a float, and otherwise returns the rounded quotient.
\<close>

definition py_truediv :: "float_ops \<Rightarrow> int \<Rightarrow> int \<Rightarrow> py_error + real" where
  "py_truediv fl a b =
     (if b = 0 then Inl ZeroDivisionError
      else if true_division_overflows a b then
        Inl (OverflowError ''integer division result too large for a float'')
      else Inr (fl_truediv fl a b))"

text \<open>
  \<^verbatim>\<open>CompressionResult.__post_init__\<close>, run by the generated constructor on the
  fields it was given (\<open>self\<close>).
\<close>

definition CompressionResult_post_init :: "float_ops \<Rightarrow> CompressionResult \<Rightarrow> py_error + CompressionResult" where
  "CompressionResult_post_init fl self =
     (let self1 = (if warnings self = None then self\<lparr>warnings := Some []\<rparr> else self) in
      if original_size self1 > 0 \<and> compressed_size self1 > 0 then
        (case py_truediv fl (original_size self1 - compressed_size self1) (original_size self1) of
           Inl e \<Rightarrow> Inl e
         | Inr q \<Rightarrow> Inr (self1\<lparr>compression_ratio := q\<rparr>))
      else Inr self1)"

text \<open>The dataclass defaults: every field but \<open>success\<close> may be left out.\<close>

definition CompressionResult_defaults :: "bool \<Rightarrow> CompressionResult" where
  "CompressionResult_defaults ok =
     \<lparr>success = ok, original_size = 0, compressed_size = 0, compression_ratio = 0,
      compression_time = 0, method_used = None, output_path = None, error_message = None,
      warnings = None\<rparr>"

text \<open>
  The constructor as the stages call it. Every call \<^verbatim>\<open>CompressionResult(...)\<close> of
  the repository passes \<^verbatim>\<open>success\<close> and some of \<^verbatim>\<open>original_size\<close>,
  \<^verbatim>\<open>compressed_size\<close>, \<^verbatim>\<open>compression_time\<close>, \<^verbatim>\<open>method_used\<close>,
  \<^verbatim>\<open>output_path\<close> and \<^verbatim>\<open>error_message\<close>; \<^verbatim>\<open>compression_ratio\<close> and
  \<^verbatim>\<open>warnings\<close> are always left at their defaults.
\<close>

definition CompressionResult_build ::
  "float_ops \<Rightarrow> bool \<Rightarrow> int \<Rightarrow> int \<Rightarrow> real \<Rightarrow> CompressionMethod option \<Rightarrow> string option
     \<Rightarrow> string option \<Rightarrow> py_error + CompressionResult" where
  "CompressionResult_build fl ok osize csize secs used out err =
     CompressionResult_post_init fl
       ((CompressionResult_defaults ok)
          \<lparr>original_size := osize, compressed_size := csize, compression_time := secs,
           method_used := used, output_path := out, error_message := err\<rparr>)"

lemma CompressionResult_post_init_eq:
  "CompressionResult_post_init fl self =
     (if original_size self > 0 \<and> compressed_size self > 0
         \<and> true_division_overflows (original_size self - compressed_size self) (original_size self)
      then Inl (OverflowError ''integer division result too large for a float'')
      else Inr (self\<lparr>warnings := (if warnings self = None then Some [] else warnings self),
                     compression_ratio :=
                       (if original_size self > 0 \<and> compressed_size self > 0
                        then fl_truediv fl (original_size self - compressed_size self)
                               (original_size self)
                        else compression_ratio self)\<rparr>))"
  by (cases self) (auto simp add: CompressionResult_post_init_def py_truediv_def Let_def)

lemma overflow_threshold: "(2::real) ^ 64 \<le> 2 ^ 1024 - 2 ^ 970"
proof -
  have "(2::real) ^ 1024 = 2 ^ 970 * 2 ^ 54" by (simp only: power_add [symmetric]) simp
  then have "(2::real) ^ 1024 - 2 ^ 970 = 2 ^ 970 * (2 ^ 54 - 1)" by (simp only: right_diff_distrib mult_1_right)
  moreover have "(2::real) ^ 970 * 1 \<le> 2 ^ 970 * (2 ^ 54 - 1)"
    by (rule mult_left_mono) simp_all
  moreover have "(2::real) ^ 64 \<le> 2 ^ 970" by (rule power_increasing) simp_all
  ultimately show ?thesis by simp
qed

text \<open>
  A file or a byte string has fewer than \<open>2 ^ 63\<close> bytes. With a compressed size below
  \<open>2 ^ 64\<close> the quotient is in range.
\<close>

lemma no_overflow_small:
  assumes "0 < osize" "0 < csize" "csize < 2 ^ 64"
  shows "\<not> true_division_overflows (osize - csize) osize"
proof -
  have o: "1 \<le> real_of_int osize" using assms(1) by simp
  have c: "real_of_int csize < 2 ^ 64"
    using assms(3) by (metis of_int_less_iff of_int_numeral of_int_power)
  have "\<bar>real_of_int (osize - csize)\<bar> < max (real_of_int osize) (real_of_int csize)"
    using assms(1,2) by simp
  also have "\<dots> \<le> real_of_int osize * 2 ^ 64"
  proof -
    have "real_of_int csize \<le> 1 * 2 ^ 64" using c by simp
    also have "\<dots> \<le> real_of_int osize * 2 ^ 64" using o by (rule mult_right_mono) simp
    finally have c': "real_of_int csize \<le> real_of_int osize * 2 ^ 64" .
    have "real_of_int osize * 1 \<le> real_of_int osize * 2 ^ 64"
      using o by (intro mult_left_mono) simp_all
    with c' show ?thesis by simp
  qed
  finally have "\<bar>real_of_int (osize - csize)\<bar> / real_of_int osize < 2 ^ 64"
    using o by (simp add: pos_divide_less_eq mult.commute)
  moreover have "\<bar>real_of_int osize\<bar> = real_of_int osize" using o by simp
  ultimately have "\<bar>real_of_int (osize - csize) / real_of_int osize\<bar> < 2 ^ 64"
    by (simp only: abs_divide)
  with overflow_threshold show ?thesis
    unfolding true_division_overflows_def by linarith
qed

text \<open>
  The constructor call \<^verbatim>\<open>CompressionResult(...)\<close> where it cannot raise: the
  calls that report a failure pass no \<^verbatim>\<open>compressed_size\<close>, so that
  \<^verbatim>\<open>__post_init__\<close> does not divide (\<open>CompressionResult_new_total\<close>) and the
  \<open>Inl\<close> case below does not occur.
\<close>

definition CompressionResult_new :: "float_ops \<Rightarrow> CompressionResult \<Rightarrow> CompressionResult" where
  "CompressionResult_new fl given =
     (case CompressionResult_post_init fl given of Inr r \<Rightarrow> r | Inl e \<Rightarrow> given)"

lemma CompressionResult_new_total:
  "compressed_size given \<le> 0 \<Longrightarrow>
     CompressionResult_post_init fl given = Inr (CompressionResult_new fl given)"
  by (simp add: CompressionResult_new_def CompressionResult_post_init_eq)

lemma CompressionResult_new_eq:
  "CompressionResult_new fl self =
     (if original_size self > 0 \<and> compressed_size self > 0 then
        (if true_division_overflows (original_size self - compressed_size self) (original_size self)
         then self
         else self\<lparr>warnings := (if warnings self = None then Some [] else warnings self),
                   compression_ratio :=
                     fl_truediv fl (original_size self - compressed_size self) (original_size self)\<rparr>)
      else self\<lparr>warnings := (if warnings self = None then Some [] else warnings self)\<rparr>)"
  by (cases self) (simp add: CompressionResult_new_def CompressionResult_post_init_eq)

text \<open>
  Arithmetic that returns the exact result. It agrees with the doubles on the operands
  of the examples below, whose exact results are doubles.
\<close>

definition exact_floats :: float_ops where
  "exact_floats =
     \<lparr>fl_truediv = (\<lambda>a b. real_of_int a / real_of_int b), fl_log2 = log 2,
      fl_mul = (\<lambda>x y. x * y), fl_sub = (\<lambda>x y. x - y)\<rparr>"

lemma CompressionResult_build_eq:
  "CompressionResult_build fl ok osize csize secs used out err =
     (if osize > 0 \<and> csize > 0 \<and> true_division_overflows (osize - csize) osize
      then Inl (OverflowError ''integer division result too large for a float'')
      else Inr \<lparr>success = ok, original_size = osize, compressed_size = csize,
                compression_ratio =
                  (if osize > 0 \<and> csize > 0 then fl_truediv fl (osize - csize) osize else 0),
                compression_time = secs, method_used = used, output_path = out,
                error_message = err, warnings = Some []\<rparr>)"
  by (simp add: CompressionResult_build_def CompressionResult_post_init_eq
      CompressionResult_defaults_def)

lemma CompressionResult_build_small:
  assumes "csize < 2 ^ 64"
  shows "CompressionResult_build fl ok osize csize secs used out err =
     Inr \<lparr>success = ok, original_size = osize, compressed_size = csize,
           compression_ratio =
             (if osize > 0 \<and> csize > 0 then fl_truediv fl (osize - csize) osize else 0),
           compression_time = secs, method_used = used, output_path = out,
           error_message = err, warnings = Some []\<rparr>"
proof -
  have "\<not> (osize > 0 \<and> csize > 0 \<and> true_division_overflows (osize - csize) osize)"
    using assms no_overflow_small [of osize csize] by blast
  then show ?thesis unfolding CompressionResult_build_eq by (simp only: if_False)
qed

text \<open>
  Claim C9. A result that a stage builds has \<open>compression_ratio\<close> equal to the
  quotient \<open>(original_size - compressed_size) / original_size\<close>, as Python's division
  of ints rounds it, when both sizes are positive, and equal to \<open>0.0\<close> otherwise. The
  construction never divides by zero. The one way it can fail is Python's
  \<^verbatim>\<open>OverflowError\<close> on a quotient beyond the range of a float, and that does not
  occur for a compressed size below \<open>2 ^ 64\<close>, which every size of a file or of a
  byte string is.
\<close>

theorem compression_ratio_post_init:
  "CompressionResult_build fl ok osize csize secs used out err \<noteq> Inl ZeroDivisionError
   \<and> CompressionResult_build fl ok osize csize secs used out err =
       (if osize > 0 \<and> csize > 0 \<and> true_division_overflows (osize - csize) osize
        then Inl (OverflowError ''integer division result too large for a float'')
        else Inr \<lparr>success = ok, original_size = osize, compressed_size = csize,
                  compression_ratio =
                    (if osize > 0 \<and> csize > 0 then fl_truediv fl (osize - csize) osize else 0),
                  compression_time = secs, method_used = used, output_path = out,
                  error_message = err, warnings = Some []\<rparr>)
   \<and> (csize < 2 ^ 64 \<longrightarrow>
        CompressionResult_build fl ok osize csize secs used out err =
          Inr \<lparr>success = ok, original_size = osize, compressed_size = csize,
                compression_ratio =
                  (if osize > 0 \<and> csize > 0 then fl_truediv fl (osize - csize) osize else 0),
                compression_time = secs, method_used = used, output_path = out,
                error_message = err, warnings = Some []\<rparr>)"
proof (intro conjI impI)
  show "CompressionResult_build fl ok osize csize secs used out err \<noteq> Inl ZeroDivisionError"
    unfolding CompressionResult_build_eq by simp
  show "CompressionResult_build fl ok osize csize secs used out err =
       (if osize > 0 \<and> csize > 0 \<and> true_division_overflows (osize - csize) osize
        then Inl (OverflowError ''integer division result too large for a float'')
        else Inr \<lparr>success = ok, original_size = osize, compressed_size = csize,
                  compression_ratio =
                    (if osize > 0 \<and> csize > 0 then fl_truediv fl (osize - csize) osize else 0),
                  compression_time = secs, method_used = used, output_path = out,
                  error_message = err, warnings = Some []\<rparr>)"
    by (rule CompressionResult_build_eq)
next
  assume "csize < 2 ^ 64"
  then show "CompressionResult_build fl ok osize csize secs used out err =
          Inr \<lparr>success = ok, original_size = osize, compressed_size = csize,
                compression_ratio =
                  (if osize > 0 \<and> csize > 0 then fl_truediv fl (osize - csize) osize else 0),
                compression_time = secs, method_used = used, output_path = out,
                error_message = err, warnings = Some []\<rparr>"
    by (rule CompressionResult_build_small)
qed

text \<open>
  The theorem at a construction with sizes 160 and 40, whose ratio 0.75 is a double.
\<close>

theorem compression_ratio_post_init_witness:
  "(40::int) < 2 ^ 64
   \<and> CompressionResult_build exact_floats True 160 40 0 (Some LZMA) (Some ''app.xz'') None =
       Inr \<lparr>success = True, original_size = 160, compressed_size = 40,
             compression_ratio = 3 / 4, compression_time = 0, method_used = Some LZMA,
             output_path = Some ''app.xz'', error_message = None, warnings = Some []\<rparr>"
proof -
  note built = compression_ratio_post_init
    [of exact_floats True 160 40 0 "Some LZMA" "Some ''app.xz''" None,
      THEN conjunct2, THEN conjunct2, rule_format]
  have small: "(40::int) < 2 ^ 64" by simp
  have "CompressionResult_build exact_floats True 160 40 0 (Some LZMA) (Some ''app.xz'') None =
       Inr \<lparr>success = True, original_size = 160, compressed_size = 40,
             compression_ratio = 3 / 4, compression_time = 0, method_used = Some LZMA,
             output_path = Some ''app.xz'', error_message = None, warnings = Some []\<rparr>"
    unfolding built [OF small] by (simp add: exact_floats_def)
  with small show ?thesis by (simp only: simp_thms)
qed

section \<open>The UPX backend: backup, compress, restore\<close>

text \<open>
  The file system is a map from paths to contents. \<^verbatim>\<open>shutil.copy2\<close>,
  \<^verbatim>\<open>shutil.move\<close> and \<^verbatim>\<open>os.remove\<close> raise when their source is missing, and
  may raise for reasons outside the map (permissions, a full disk): the environment
  says whether each of them goes through. The source wraps each of the three in its
  own \<^verbatim>\<open>try\<close>. The environment also holds the host's floating-point arithmetic, in
  which the constructor of the result computes the ratio.
\<close>

type_synonym fs = "string \<rightharpoonup> byte list"

text \<open>
  What awaiting the child process gives: an exit code with the captured standard
  error, or an exception (of \<^verbatim>\<open>create_subprocess_exec\<close> or \<^verbatim>\<open>communicate\<close>);
  either way with the file system the child left behind. The exceptions are those the
  handler \<^verbatim>\<open>except Exception\<close> catches; cancellation of the task is not modelled.
\<close>

datatype proc_outcome = Exited int "byte list" fs | Raised py_error fs

fun proc_fs :: "proc_outcome \<Rightarrow> fs" where
  "proc_fs (Exited rc err fs') = fs'"
| "proc_fs (Raised e fs') = fs'"

fun proc_failed :: "proc_outcome \<Rightarrow> bool" where
  "proc_failed (Exited rc err fs') = (rc \<noteq> 0)"
| "proc_failed (Raised e fs') = True"

record upx_env =
  upx_path :: "string option"
  copy_ok :: bool
  move_ok :: bool
  remove_ok :: bool
  run_process :: "string list \<Rightarrow> fs \<Rightarrow> proc_outcome"
  decode_ignore :: "byte list \<Rightarrow> string"
  elapsed :: real
  floats :: float_ops

definition path_exists :: "fs \<Rightarrow> string \<Rightarrow> bool" where
  "path_exists fs p = (fs p \<noteq> None)"

definition getsize :: "fs \<Rightarrow> string \<Rightarrow> py_error + int" where
  "getsize fs p =
     (case fs p of
        None \<Rightarrow> Inl (FileNotFoundError (no_such_file p))
      | Some bs \<Rightarrow> Inr (int (length bs)))"

definition copy2 :: "upx_env \<Rightarrow> string \<Rightarrow> string \<Rightarrow> fs \<Rightarrow> py_error + fs" where
  "copy2 env src dst fs =
     (case fs src of
        None \<Rightarrow> Inl (FileNotFoundError src)
      | Some bs \<Rightarrow> if copy_ok env then Inr (fs(dst \<mapsto> bs)) else Inl (OSError dst))"

definition move :: "upx_env \<Rightarrow> string \<Rightarrow> string \<Rightarrow> fs \<Rightarrow> py_error + fs" where
  "move env src dst fs =
     (case fs src of
        None \<Rightarrow> Inl (FileNotFoundError src)
      | Some bs \<Rightarrow> if move_ok env then Inr ((fs(src := None))(dst \<mapsto> bs)) else Inl (OSError dst))"

definition remove :: "upx_env \<Rightarrow> string \<Rightarrow> fs \<Rightarrow> py_error + fs" where
  "remove env p fs =
     (case fs p of
        None \<Rightarrow> Inl (FileNotFoundError p)
      | Some bs \<Rightarrow> if remove_ok env then Inr (fs(p := None)) else Inl (OSError p))"

text \<open>Decimal rendering of an int, for \<^verbatim>\<open>f"-{options.level}"\<close>.\<close>

definition digit_char :: "nat \<Rightarrow> char" where
  "digit_char d = ''0123456789'' ! d"

function str_nat :: "nat \<Rightarrow> string" where
  "str_nat n = (if n < 10 then [digit_char n] else str_nat (n div 10) @ [digit_char (n mod 10)])"
  by pat_completeness auto
termination
  by (relation "measure (\<lambda>n. n)") auto

definition str_int :: "int \<Rightarrow> string" where
  "str_int i = (if i < 0 then CHR ''-'' # str_nat (nat (- i)) else str_nat (nat i))"

definition UPX_build_cmd :: "string \<Rightarrow> CompressionOptions \<Rightarrow> string \<Rightarrow> string list" where
  "UPX_build_cmd upx options file_path =
     [upx]
     @ (if level options \<ge> 9 \<or> upx_ultra_brute options then [''--ultra-brute'']
        else if level options \<ge> 7 then [''--best'']
        else if level options \<ge> 4 then [''-9'']
        else [CHR ''-'' # str_int (level options)])
     @ (if \<not> upx_compress_icons options then [''--compress-icons=0''] else [])
     @ (if upx_strip_relocs options then [''--strip-relocs=1''] else [])
     @ (if \<not> preserve_resources options then [''--compress-resources=1''] else [])
     @ [''--force'', ''-qq'']
     @ [file_path]"

text \<open>
  The two handlers that put the backup back: \<^verbatim>\<open>if backup_path and
  os.path.exists(backup_path): try: shutil.move(backup_path, file_path) except: pass\<close>.
\<close>

definition UPX_restore :: "upx_env \<Rightarrow> string \<Rightarrow> string option \<Rightarrow> fs \<Rightarrow> fs" where
  "UPX_restore env file_path backup_path fs =
     (case backup_path of
        None \<Rightarrow> fs
      | Some b \<Rightarrow>
          if path_exists fs b then
            (case move env b file_path fs of Inl e \<Rightarrow> fs | Inr fs' \<Rightarrow> fs')
          else fs)"

text \<open>The \<^verbatim>\<open>finally\<close> block: the backup is removed when it and the file both exist.\<close>

definition UPX_finally :: "upx_env \<Rightarrow> string \<Rightarrow> string option \<Rightarrow> fs \<Rightarrow> fs" where
  "UPX_finally env file_path backup_path fs =
     (case backup_path of
        None \<Rightarrow> fs
      | Some b \<Rightarrow>
          if path_exists fs b \<and> path_exists fs file_path then
            (case remove env b fs of Inl e \<Rightarrow> fs | Inr fs' \<Rightarrow> fs')
          else fs)"

text \<open>
  The handler of the inner \<^verbatim>\<open>try\<close>, which holds \<^verbatim>\<open>os.path.getsize\<close> and the
  construction of the successful result.
\<close>

definition UPX_post_failure :: "upx_env \<Rightarrow> py_error \<Rightarrow> CompressionResult" where
  "UPX_post_failure env e =
     CompressionResult_new (floats env) ((CompressionResult_defaults False)
       \<lparr>error_message := Some (''Erreur post-compression: '' @ str_of_error e),
        compression_time := elapsed env\<rparr>)"

text \<open>The body of the outer \<^verbatim>\<open>try\<close>, with its \<^verbatim>\<open>except Exception\<close> handler.\<close>

definition UPX_try ::
  "upx_env \<Rightarrow> string \<Rightarrow> string \<Rightarrow> CompressionOptions \<Rightarrow> int \<Rightarrow> string option \<Rightarrow> fs
     \<Rightarrow> CompressionResult \<times> fs" where
  "UPX_try env upx file_path options osize backup_path fs =
     (case run_process env (UPX_build_cmd upx options file_path) fs of
        Raised e fs' \<Rightarrow>
          (CompressionResult_new (floats env) ((CompressionResult_defaults False)
             \<lparr>error_message := Some (str_of_error e), compression_time := elapsed env,
              original_size := osize\<rparr>),
           UPX_restore env file_path backup_path fs')
      | Exited rc err fs' \<Rightarrow>
          if rc = 0 then
            (case getsize fs' file_path of
               Inr csize \<Rightarrow>
                 (case CompressionResult_build (floats env) True osize csize (elapsed env)
                         (Some UPX) (Some file_path) None of
                    Inr res \<Rightarrow> (res, fs')
                  | Inl e \<Rightarrow> (UPX_post_failure env e, fs'))
             | Inl e \<Rightarrow> (UPX_post_failure env e, fs'))
          else
            (CompressionResult_new (floats env) ((CompressionResult_defaults False)
               \<lparr>error_message :=
                  Some (if err \<noteq> [] then decode_ignore env err else ''Erreur UPX inconnue''),
                compression_time := elapsed env, original_size := osize\<rparr>),
             UPX_restore env file_path backup_path fs'))"

text \<open>\<^verbatim>\<open>UPXCompressor.compress\<close>: the result and the file system after the call.\<close>

definition UPXCompressor_compress ::
  "upx_env \<Rightarrow> string \<Rightarrow> CompressionOptions \<Rightarrow> fs \<Rightarrow> CompressionResult \<times> fs" where
  "UPXCompressor_compress env file_path options fs =
     (case upx_path env of
        None \<Rightarrow>
          (CompressionResult_new (floats env) ((CompressionResult_defaults False)
             \<lparr>error_message := Some ''UPX non disponible''\<rparr>), fs)
      | Some upx \<Rightarrow>
          (case getsize fs file_path of
             Inl e \<Rightarrow>
               (CompressionResult_new (floats env) ((CompressionResult_defaults False)
                  \<lparr>error_message := Some (''Erreur lecture fichier: '' @ str_of_error e)\<rparr>), fs)
           | Inr osize \<Rightarrow>
               (let backup_path =
                      (if backup_original options then Some (file_path @ ''.backup'') else None);
                    fs1 = (case backup_path of
                             None \<Rightarrow> fs
                           | Some b \<Rightarrow>
                               (case copy2 env file_path b fs of Inl e \<Rightarrow> fs | Inr fs' \<Rightarrow> fs'));
                    (res, fs2) = UPX_try env upx file_path options osize backup_path fs1
                in (res, UPX_finally env file_path backup_path fs2))))"

text \<open>The options' defaults, after their \<^verbatim>\<open>__post_init__\<close>.\<close>

definition CompressionOptions_defaults :: CompressionOptions where
  "CompressionOptions_defaults =
     \<lparr>method' = AUTO, level = 9, preserve_resources = True, backup_original = True,
      upx_ultra_brute = False, upx_compress_icons = True, upx_strip_relocs = False,
      lzma_preset = 9, lzma_check = 1, brotli_quality = 11, brotli_window_bits = 22,
      custom_algorithm = None, exclude_patterns = Some []\<rparr>"

text \<open>
  Concrete runs: a file \<^verbatim>\<open>app.exe\<close> holding the two bytes \<^verbatim>\<open>MZ\<close>; a child that
  overwrites it and exits with code 1; the same child when the backup copy cannot be
  written; and a child that overwrites the file and exits with code 0.
\<close>

definition fs_app :: fs where
  "fs_app = [''app.exe'' \<mapsto> [77, 90]]"

definition upx_env_clobber :: upx_env where
  "upx_env_clobber =
     \<lparr>upx_path = Some ''upx'', copy_ok = True, move_ok = True, remove_ok = True,
      run_process = (\<lambda>cmd fs. Exited 1 [] (fs(''app.exe'' \<mapsto> [0]))),
      decode_ignore = (\<lambda>bs. []), elapsed = 0,
      floats = exact_floats\<rparr>"

definition upx_env_no_backup :: upx_env where
  "upx_env_no_backup = upx_env_clobber\<lparr>copy_ok := False\<rparr>"

definition upx_env_packed :: upx_env where
  "upx_env_packed =
     upx_env_clobber\<lparr>run_process := (\<lambda>cmd fs. Exited 0 [] (fs(''app.exe'' \<mapsto> [0])))\<rparr>"

lemma str_int_example: "str_int 3 = ''3'' \<and> str_int (- 1) = ''-1''"
  by (simp add: str_int_def digit_char_def)

text \<open>
  Claim C1, as stated, at a concrete run with \<open>backup_original\<close> set: the backup copy
  fails (the source logs a warning and goes on), the child overwrites the file and
  exits with code 1, and the file is left overwritten.
\<close>

theorem upx_backup_copy_fails_counterexample:
  "backup_original CompressionOptions_defaults
   \<and> proc_failed (run_process upx_env_no_backup
         (UPX_build_cmd ''upx'' CompressionOptions_defaults ''app.exe'') fs_app)
   \<and> fs_app ''app.exe'' = Some [77, 90]
   \<and> snd (UPXCompressor_compress upx_env_no_backup ''app.exe'' CompressionOptions_defaults fs_app)
        ''app.exe'' = Some [0]"
  by (simp add: UPXCompressor_compress_def upx_env_no_backup_def upx_env_clobber_def fs_app_def
      CompressionOptions_defaults_def getsize_def copy2_def UPX_try_def UPX_restore_def
      UPX_finally_def path_exists_def Let_def)

text \<open>
  Claim C1, amended. For an existing artifact and \<open>backup_original\<close> set, when the
  backup copy, the restoring move and the removal of the backup go through and the
  child process leaves the path \<^verbatim>\<open><artifact>.backup\<close> as it found it: if the child
  fails (non-zero exit or exception) the artifact's bytes after the call are its bytes
  before the call and no \<^verbatim>\<open><artifact>.backup\<close> remains; if the call reports success
  no \<^verbatim>\<open><artifact>.backup\<close> remains.
\<close>

theorem upx_backup_restored:
  assumes upx: "upx_path env = Some upx"
    and bk: "backup_original options"
    and present: "fs file_path = Some bytes"
    and ok: "copy_ok env" "move_ok env" "remove_ok env"
    and keep: "\<forall>cmd fs0. proc_fs (run_process env cmd fs0) (file_path @ ''.backup'')
                 = fs0 (file_path @ ''.backup'')"
  shows "(proc_failed (run_process env (UPX_build_cmd upx options file_path)
                          (fs(file_path @ ''.backup'' \<mapsto> bytes)))
            \<longrightarrow> snd (UPXCompressor_compress env file_path options fs) file_path = fs file_path
              \<and> snd (UPXCompressor_compress env file_path options fs) (file_path @ ''.backup'') = None)
       \<and> (success (fst (UPXCompressor_compress env file_path options fs))
            \<longrightarrow> snd (UPXCompressor_compress env file_path options fs) (file_path @ ''.backup'') = None)"
proof -
  let ?b = "file_path @ ''.backup''"
  let ?out = "run_process env (UPX_build_cmd upx options file_path) (fs(?b \<mapsto> bytes))"
  have ne: "file_path \<noteq> ?b" by simp
  have kept: "proc_fs ?out ?b = Some bytes" using keep by simp
  show ?thesis
  proof (cases ?out)
    case (Exited rc err fs')
    with kept have b': "fs' ?b = Some bytes" by simp
    show ?thesis using upx bk present ok Exited b' ne
      by (auto simp: UPXCompressor_compress_def getsize_def copy2_def UPX_try_def UPX_restore_def
          UPX_finally_def path_exists_def move_def remove_def Let_def CompressionResult_new_eq
          CompressionResult_defaults_def UPX_post_failure_def split: option.splits sum.splits)
  next
    case (Raised e fs')
    with kept have b': "fs' ?b = Some bytes" by simp
    show ?thesis using upx bk present ok Raised b' ne
      by (auto simp: UPXCompressor_compress_def getsize_def copy2_def UPX_try_def UPX_restore_def
          UPX_finally_def path_exists_def move_def remove_def Let_def CompressionResult_new_eq
          CompressionResult_defaults_def UPX_post_failure_def split: option.splits sum.splits)
  qed
qed

theorem upx_backup_restored_witness:
  "proc_failed (run_process upx_env_clobber
       (UPX_build_cmd ''upx'' CompressionOptions_defaults ''app.exe'')
       (fs_app(''app.exe.backup'' \<mapsto> [77, 90])))
   \<and> snd (UPXCompressor_compress upx_env_clobber ''app.exe'' CompressionOptions_defaults fs_app)
        ''app.exe'' = Some [77, 90]
   \<and> snd (UPXCompressor_compress upx_env_clobber ''app.exe'' CompressionOptions_defaults fs_app)
        ''app.exe.backup'' = None
   \<and> success (fst (UPXCompressor_compress upx_env_packed ''app.exe'' CompressionOptions_defaults fs_app))
   \<and> snd (UPXCompressor_compress upx_env_packed ''app.exe'' CompressionOptions_defaults fs_app)
        ''app.exe.backup'' = None"
proof -
  have failing: "proc_failed (run_process upx_env_clobber
       (UPX_build_cmd ''upx'' CompressionOptions_defaults ''app.exe'')
       (fs_app(''app.exe.backup'' \<mapsto> [77, 90])))"
    by (simp add: upx_env_clobber_def)
  have packed: "success (fst (UPXCompressor_compress upx_env_packed ''app.exe''
       CompressionOptions_defaults fs_app))"
    using no_overflow_small [of 2 1]
    by (simp add: UPXCompressor_compress_def upx_env_packed_def upx_env_clobber_def fs_app_def
        CompressionOptions_defaults_def getsize_def copy2_def UPX_try_def Let_def
        CompressionResult_build_def CompressionResult_post_init_eq CompressionResult_defaults_def)
  have a: "upx_path upx_env_clobber = Some ''upx'' \<and> copy_ok upx_env_clobber
      \<and> move_ok upx_env_clobber \<and> remove_ok upx_env_clobber
      \<and> (\<forall>cmd fs0. proc_fs (run_process upx_env_clobber cmd fs0) (''app.exe'' @ ''.backup'')
             = fs0 (''app.exe'' @ ''.backup''))"
    by (simp add: upx_env_clobber_def)
  have b: "upx_path upx_env_packed = Some ''upx'' \<and> copy_ok upx_env_packed
      \<and> move_ok upx_env_packed \<and> remove_ok upx_env_packed
      \<and> (\<forall>cmd fs0. proc_fs (run_process upx_env_packed cmd fs0) (''app.exe'' @ ''.backup'')
             = fs0 (''app.exe'' @ ''.backup''))"
    by (simp add: upx_env_packed_def upx_env_clobber_def)
  have c: "backup_original CompressionOptions_defaults \<and> fs_app ''app.exe'' = Some [77, 90]"
    by (simp add: CompressionOptions_defaults_def fs_app_def)
  from upx_backup_restored [of upx_env_clobber "''upx''" CompressionOptions_defaults fs_app
      "''app.exe''" "[77, 90]"] a c failing
  have r1: "snd (UPXCompressor_compress upx_env_clobber ''app.exe'' CompressionOptions_defaults fs_app)
        ''app.exe'' = Some [77, 90]
     \<and> snd (UPXCompressor_compress upx_env_clobber ''app.exe'' CompressionOptions_defaults fs_app)
        ''app.exe.backup'' = None"
    by simp
  from upx_backup_restored [of upx_env_packed "''upx''" CompressionOptions_defaults fs_app
      "''app.exe''" "[77, 90]"] b c packed
  have r2: "snd (UPXCompressor_compress upx_env_packed ''app.exe'' CompressionOptions_defaults fs_app)
        ''app.exe.backup'' = None"
    by simp
  from failing packed r1 r2 show ?thesis by simp
qed

section \<open>The adaptive compressor and its framed output\<close>

text \<open>
  \<^verbatim>\<open>CustomCompressor\<close>. \<^verbatim>\<open>lzma.compress\<close> and \<^verbatim>\<open>brotli.compress\<close> are library
  calls and are taken from the environment, as are the flag \<^verbatim>\<open>BROTLI_AVAILABLE\<close>,
  the floating-point arithmetic in which the two measures of the input are computed,
  and what the host does to the output file.
\<close>

text \<open>
  Writing a file with \<^verbatim>\<open>with open(path, 'wb') as f: f.write(...)\<close>. \<open>OpenFault e\<close>:
  \<^verbatim>\<open>open\<close> raises \<open>e\<close> and the file system stays as it is. Otherwise the file is
  created or truncated. \<open>WriteFault n e\<close>: the file takes \<open>n\<close> bytes, and writing more
  than that raises \<open>e\<close>, from \<^verbatim>\<open>write\<close> or from the flush when the \<^verbatim>\<open>with\<close>
  block closes the file (a full disk, a quota).
\<close>

datatype io_fault = NoFault | OpenFault py_error | WriteFault nat py_error

record codec_env =
  lzma_compress :: "byte list \<Rightarrow> int \<Rightarrow> py_error + byte list"
  brotli_compress :: "byte list \<Rightarrow> int \<Rightarrow> py_error + byte list"
  BROTLI_AVAILABLE :: bool
  clock :: real
  float_arith :: float_ops
  output_fault :: "string \<Rightarrow> io_fault"

text \<open>The bytes that reach the file, and the exception if not all of them do.\<close>

fun write_bytes :: "io_fault \<Rightarrow> byte list \<Rightarrow> byte list \<times> py_error option" where
  "write_bytes (WriteFault n e) bs = (if length bs \<le> n then (bs, None) else (take n bs, Some e))"
| "write_bytes NoFault bs = (bs, None)"
| "write_bytes (OpenFault e) bs = ([], Some e)"

text \<open>
  The frequency table of \<^verbatim>\<open>_calculate_entropy\<close>:
  \<^verbatim>\<open>freq[byte] = freq.get(byte, 0) + 1\<close> on a dict, whose items stay in the order of
  their first insertion.
\<close>

fun freq_add :: "(byte \<times> int) list \<Rightarrow> byte \<Rightarrow> (byte \<times> int) list" where
  "freq_add [] b = [(b, 1)]"
| "freq_add ((k, v) # kvs) b = (if k = b then (k, v + 1) # kvs else (k, v) # freq_add kvs b)"

definition freq_table :: "byte list \<Rightarrow> (byte \<times> int) list" where
  "freq_table data = foldl freq_add [] data"

text \<open>
  \<^verbatim>\<open>_calculate_entropy\<close>: one term per entry of the table, each subtracted from the
  running value in floating-point arithmetic, in the order of the table. The division
  \<^verbatim>\<open>count / data_len\<close> cannot raise (the divisor is positive and the quotient is at
  most 1, see \<open>py_truediv_fraction\<close>), and \<^verbatim>\<open>math.log2\<close> is called on a positive
  number.
\<close>

definition calculate_entropy :: "float_ops \<Rightarrow> byte list \<Rightarrow> real" where
  "calculate_entropy fl data =
     (if data = [] then 0
      else (let data_len = int (length data)
            in foldl (\<lambda>entropy count.
                        if count > 0 then
                          (let prob = fl_truediv fl count data_len
                           in fl_sub fl entropy (fl_mul fl prob (fl_log2 fl prob)))
                        else entropy)
                     0 (map snd (freq_table data))))"

text \<open>The loop of \<^verbatim>\<open>_calculate_repetition_ratio\<close>: positions equal to their predecessor.\<close>

fun repeated_bytes :: "byte list \<Rightarrow> nat" where
  "repeated_bytes (a # b # xs) = (if b = a then 1 else 0) + repeated_bytes (b # xs)"
| "repeated_bytes xs = 0"

text \<open>
  \<^verbatim>\<open>_calculate_repetition_ratio\<close>. The division cannot raise either: the sample has
  at least 100 bytes, and the count is at most the divisor.
\<close>

definition calculate_repetition_ratio :: "float_ops \<Rightarrow> byte list \<Rightarrow> real" where
  "calculate_repetition_ratio fl data =
     (if length data < 100 then 0
      else (let sample_size = min 1000 (length data);
                sample = take sample_size data
            in fl_truediv fl (int (repeated_bytes sample)) (int sample_size - 1)))"

text \<open>Python's \<^verbatim>\<open>x or d\<close> on ints: \<open>d\<close> when \<open>x\<close> is 0.\<close>

definition py_or :: "int \<Rightarrow> int \<Rightarrow> int" where
  "py_or x d = (if x = 0 then d else x)"

text \<open>The double that the literal \<^verbatim>\<open>0.3\<close> denotes; \<^verbatim>\<open>6.0\<close> denotes 6.\<close>

definition double_0_3 :: real where
  "double_0_3 = 5404319552844595 / 18014398509481984"

definition optimal_compress :: "codec_env \<Rightarrow> byte list \<Rightarrow> CompressionOptions \<Rightarrow> py_error + byte list" where
  "optimal_compress env data options =
     (let entropy = calculate_entropy (float_arith env) data;
          repetition_ratio = calculate_repetition_ratio (float_arith env) data
      in if entropy < 6 \<and> repetition_ratio > double_0_3 then
           lzma_compress env data (py_or (lzma_preset options) 9)
         else if BROTLI_AVAILABLE env \<and> length data < 1024 * 1024 then
           brotli_compress env data (py_or (brotli_quality options) 11)
         else lzma_compress env data (py_or (lzma_preset options) 6))"

text \<open>
  \<^verbatim>\<open>struct.pack('<I', n)\<close>: four bytes, least significant first; raises out of range
  (the message is that of CPython 3.11).
\<close>

definition pack_I :: "int \<Rightarrow> py_error + byte list" where
  "pack_I n =
     (if 0 \<le> n \<and> n < 2 ^ 32 then
        Inr [word_of_int n, word_of_int (n div 2 ^ 8), word_of_int (n div 2 ^ 16),
             word_of_int (n div 2 ^ 24)]
      else Inl (StructError (quoted ''I'' @ '' format requires 0 <= number <= 4294967295'')))"

text \<open>\<^verbatim>\<open>struct.unpack('<I', bs)\<close> on four bytes, to read a header back.\<close>

fun unpack_I :: "byte list \<Rightarrow> int option" where
  "unpack_I [b0, b1, b2, b3] = Some (uint b0 + 2 ^ 8 * uint b1 + 2 ^ 16 * uint b2 + 2 ^ 24 * uint b3)"
| "unpack_I bs = None"

definition PFC_MAGIC :: "byte list" where
  "PFC_MAGIC = [0x50, 0x46, 0x43, 0x01]"

text \<open>The handler \<^verbatim>\<open>except Exception as e\<close> of \<^verbatim>\<open>CustomCompressor.compress\<close>.\<close>

definition CustomCompressor_failure :: "codec_env \<Rightarrow> py_error \<Rightarrow> CompressionResult" where
  "CustomCompressor_failure env e =
     CompressionResult_new (float_arith env) ((CompressionResult_defaults False)
       \<lparr>error_message := Some (str_of_error e), compression_time := clock env\<rparr>)"

text \<open>
  \<^verbatim>\<open>CustomCompressor.compress\<close>. \<open>fs file_path = Some data\<close> says that opening and
  reading the input gives \<open>data\<close>. The output file is opened (and so created) before
  the magic is written; an exception of \<^verbatim>\<open>struct.pack\<close> leaves the file with the
  magic, as far as the host lets it be written. Every exception, that of the
  constructor of the successful result included, is caught by the handler.
\<close>

definition CustomCompressor_compress ::
  "codec_env \<Rightarrow> string \<Rightarrow> CompressionOptions \<Rightarrow> fs \<Rightarrow> CompressionResult \<times> fs" where
  "CustomCompressor_compress env file_path options fs =
     (case fs file_path of
        None \<Rightarrow> (CustomCompressor_failure env (FileNotFoundError (no_such_file file_path)), fs)
      | Some original_data \<Rightarrow>
          (case optimal_compress env original_data options of
             Inl e \<Rightarrow> (CustomCompressor_failure env e, fs)
           | Inr compressed_data \<Rightarrow>
               (let compressed_path = file_path @ ''.pfc'';
                    fault = output_fault env compressed_path
                in case fault of
                     OpenFault e \<Rightarrow> (CustomCompressor_failure env e, fs)
                   | _ \<Rightarrow>
                       (case pack_I (int (length original_data)) of
                          Inl e \<Rightarrow>
                            (case write_bytes fault PFC_MAGIC of
                               (written, None) \<Rightarrow>
                                 (CustomCompressor_failure env e, fs(compressed_path \<mapsto> written))
                             | (written, Some e') \<Rightarrow>
                                 (CustomCompressor_failure env e', fs(compressed_path \<mapsto> written)))
                        | Inr header \<Rightarrow>
                            (case write_bytes fault (PFC_MAGIC @ header @ compressed_data) of
                               (written, Some e) \<Rightarrow>
                                 (CustomCompressor_failure env e, fs(compressed_path \<mapsto> written))
                             | (written, None) \<Rightarrow>
                                 (case CompressionResult_build (float_arith env) True
                                         (int (length original_data))
                                         (int (length compressed_data) + 8) (clock env)
                                         (Some CompressionMethod.CUSTOM) (Some compressed_path)
                                         None of
                                    Inr res \<Rightarrow> (res, fs(compressed_path \<mapsto> written))
                                  | Inl e \<Rightarrow>
                                      (CustomCompressor_failure env e,
                                       fs(compressed_path \<mapsto> written))))))))"

text \<open>
  A host without Brotli whose LZMA stand-in puts the preset it was called with in
  front of the data, so that the preset is visible in the payload; every output file
  can be written.
\<close>

definition codec_env_lzma_only :: codec_env where
  "codec_env_lzma_only =
     \<lparr>lzma_compress = (\<lambda>data preset. Inr (word_of_int preset # data)),
      brotli_compress = (\<lambda>data quality. Inl (RuntimeError ''brotli'')),
      BROTLI_AVAILABLE = False, clock = 0, float_arith = exact_floats,
      output_fault = (\<lambda>path. NoFault)\<rparr>"

definition codec_env_brotli :: codec_env where
  "codec_env_brotli =
     codec_env_lzma_only\<lparr>brotli_compress := (\<lambda>data quality. Inr (word_of_int quality # data)),
       BROTLI_AVAILABLE := True\<rparr>"

text \<open>The same host with a directory that cannot be written to, and with a full disk.\<close>

definition codec_env_read_only :: codec_env where
  "codec_env_read_only =
     codec_env_brotli\<lparr>output_fault := (\<lambda>path. OpenFault (OSError ''[Errno 13] Permission denied''))\<rparr>"

definition codec_env_full_disk :: codec_env where
  "codec_env_full_disk =
     codec_env_brotli\<lparr>output_fault :=
       (\<lambda>path. WriteFault 6 (OSError ''[Errno 28] No space left on device''))\<rparr>"

text \<open>Two inputs: 4 GiB of zero bytes, and a run of 200 zero bytes.\<close>

definition four_gib_of_zeros :: "byte list" where
  "four_gib_of_zeros = replicate (2 ^ 32) 0"

definition run_of_zeros :: "byte list" where
  "run_of_zeros = replicate (Suc 199) 0"

lemma length_four_gib: "length four_gib_of_zeros = 2 ^ 32"
  unfolding four_gib_of_zeros_def by (rule length_replicate)

text \<open>The divisions of the two measures are within the range of \<open>py_truediv\<close>.\<close>

lemma py_truediv_fraction:
  assumes "0 < b" "0 \<le> a" "a \<le> b"
  shows "py_truediv fl a b = Inr (fl_truediv fl a b)"
proof -
  have "\<bar>real_of_int a / real_of_int b\<bar> \<le> 1" using assms by simp
  moreover have "(1::real) < 2 ^ 64" by simp
  ultimately have "\<not> true_division_overflows a b"
    using overflow_threshold unfolding true_division_overflows_def by linarith
  with assms(1) show ?thesis by (simp add: py_truediv_def)
qed

lemma split32:
  "(n::int) mod 256 + 256 * (n div 256 mod 256) + 65536 * (n div 65536 mod 256)
        + 16777216 * (n div 16777216) = n"
proof -
  define q1 where "q1 = n div 256"
  define q2 where "q2 = q1 div 256"
  define q3 where "q3 = q2 div 256"
  have a: "n = 256 * q1 + n mod 256" unfolding q1_def by simp
  have b: "q1 = 256 * q2 + q1 mod 256" unfolding q2_def by simp
  have c: "q2 = 256 * q3 + q2 mod 256" unfolding q3_def by simp
  have d1: "n div 65536 = q2" unfolding q2_def q1_def by (simp add: zdiv_zmult2_eq)
  have d2: "n div 16777216 = q3" unfolding q3_def q2_def q1_def by (simp add: zdiv_zmult2_eq)
  have "n mod 256 + 256 * (q1 mod 256) + 65536 * (q2 mod 256) + 16777216 * q3 = n"
    using a b c by linarith
  then show ?thesis unfolding d1 d2 q1_def [symmetric] by simp
qed

lemma byte_uint: "uint (word_of_int k :: byte) = k mod 256"
  by (simp add: uint_word_of_int take_bit_eq_mod)

lemma top_byte:
  assumes "0 \<le> (n::int)" "n < 4294967296"
  shows "n div 16777216 mod 256 = n div 16777216"
proof -
  have "n div 16777216 < 256" using assms by (simp add: div_less_iff_less_mult)
  moreover have "0 \<le> n div 16777216" using assms by (simp add: pos_imp_zdiv_nonneg_iff)
  ultimately show ?thesis by simp
qed

lemma pows: "(2::int) ^ 8 = 256" "(2::int) ^ 16 = 65536" "(2::int) ^ 24 = 16777216"
  "(2::int) ^ 32 = 4294967296"
  by simp_all

lemma unpack_pack_I:
  assumes "0 \<le> n" "n < 2 ^ 32"
  shows "\<exists>header. pack_I n = Inr header \<and> length header = 4 \<and> unpack_I header = Some n"
proof -
  from assms(2) have lt: "n < 4294967296" unfolding pows .
  with assms(1) have t: "n div 16777216 mod 256 = n div 16777216" by (rule top_byte)
  have s: "n mod 256 + 256 * (n div 256 mod 256) + 65536 * (n div 65536 mod 256)
        + 16777216 * (n div 16777216 mod 256) = n"
    unfolding t by (rule split32)
  have u: "unpack_I [word_of_int n, word_of_int (n div 2 ^ 8), word_of_int (n div 2 ^ 16),
             word_of_int (n div 2 ^ 24) :: byte] = Some n"
    unfolding unpack_I.simps byte_uint pows s ..
  have p: "pack_I n = Inr [word_of_int n, word_of_int (n div 2 ^ 8), word_of_int (n div 2 ^ 16),
             word_of_int (n div 2 ^ 24)]"
    unfolding pack_I_def using assms by (simp only: simp_thms if_True)
  show ?thesis unfolding p using u by (intro exI conjI) (rule refl, simp, assumption)
qed

lemma int_length_small: "length (data :: byte list) < 2 ^ 32 \<Longrightarrow> int (length data) < 2 ^ 32"
proof -
  assume "length data < 2 ^ 32"
  then have "int (length data) < int (2 ^ 32)" by (simp only: of_nat_less_iff)
  then show ?thesis by (simp only: of_nat_power of_nat_numeral)
qed

lemma payload_size_small:
  assumes "length (payload :: byte list) < 2 ^ 63"
  shows "int (length payload) + 8 < 2 ^ 64"
proof -
  from assms have "int (length payload) < int (2 ^ 63)" by (simp only: of_nat_less_iff)
  then have "int (length payload) < 2 ^ 63" by (simp only: of_nat_power of_nat_numeral)
  then show ?thesis by simp
qed

lemma freq_add_replicate: "foldl freq_add [(b, k)] (replicate n b) = [(b, k + int n)]"
  by (induction n arbitrary: k) simp_all

lemma freq_table_replicate: "freq_table (replicate (Suc n) b) = [(b, 1 + int n)]"
  by (simp add: freq_table_def freq_add_replicate)

lemma entropy_replicate: "calculate_entropy exact_floats (replicate (Suc n) b) = 0"
  unfolding calculate_entropy_def freq_table_replicate
  by (simp add: Let_def exact_floats_def)

lemma repeated_bytes_replicate: "repeated_bytes (replicate (Suc n) b) = n"
  by (induction n) auto

lemma run_of_zeros_measures:
  "length run_of_zeros = 200 \<and> calculate_entropy exact_floats run_of_zeros = 0
   \<and> calculate_repetition_ratio exact_floats run_of_zeros = 1"
proof -
  have l: "length run_of_zeros = 200" unfolding run_of_zeros_def length_replicate by simp
  have e: "calculate_entropy exact_floats run_of_zeros = 0"
    unfolding run_of_zeros_def by (rule entropy_replicate)
  have t: "take 200 run_of_zeros = run_of_zeros" using l by simp
  have r: "repeated_bytes run_of_zeros = 199"
    unfolding run_of_zeros_def by (rule repeated_bytes_replicate)
  have "calculate_repetition_ratio exact_floats run_of_zeros = 1"
    by (simp add: calculate_repetition_ratio_def l t r exact_floats_def)
  with l e show ?thesis by simp
qed

text \<open>
  When the output file cannot be opened, or takes fewer bytes than the frame has,
  compress reports failure although the library call returned a payload; the file is
  then absent, or holds the bytes that fitted.
\<close>

lemma adaptive_compress_output_faults:
  "optimal_compress codec_env_brotli [7, 7, 7] CompressionOptions_defaults = Inr [11, 7, 7, 7]
   \<and> \<not> success (fst (CustomCompressor_compress codec_env_read_only ''a.bin''
          CompressionOptions_defaults [''a.bin'' \<mapsto> [7, 7, 7]]))
   \<and> snd (CustomCompressor_compress codec_env_read_only ''a.bin'' CompressionOptions_defaults
         [''a.bin'' \<mapsto> [7, 7, 7]]) ''a.bin.pfc'' = None
   \<and> \<not> success (fst (CustomCompressor_compress codec_env_full_disk ''a.bin''
          CompressionOptions_defaults [''a.bin'' \<mapsto> [7, 7, 7]]))
   \<and> snd (CustomCompressor_compress codec_env_full_disk ''a.bin'' CompressionOptions_defaults
         [''a.bin'' \<mapsto> [7, 7, 7]]) ''a.bin.pfc'' = Some [0x50, 0x46, 0x43, 0x01, 3, 0]"
proof -
  have r3: "calculate_repetition_ratio exact_floats [7, 7, 7] = 0"
    by (simp add: calculate_repetition_ratio_def)
  have o: "optimal_compress env [7, 7, 7] CompressionOptions_defaults = Inr [11, 7, 7, 7]"
    if "float_arith env = exact_floats" "BROTLI_AVAILABLE env"
       "brotli_compress env = (\<lambda>data quality. Inr (word_of_int quality # data))" for env
    using that
    by (simp add: optimal_compress_def r3 double_0_3_def CompressionOptions_defaults_def
        py_or_def Let_def)
  have a: "optimal_compress codec_env_brotli [7, 7, 7] CompressionOptions_defaults
      = Inr [11, 7, 7, 7]"
    by (rule o) (simp_all add: codec_env_brotli_def codec_env_lzma_only_def)
  have b: "optimal_compress codec_env_read_only [7, 7, 7] CompressionOptions_defaults
      = Inr [11, 7, 7, 7]"
    by (rule o)
      (simp_all add: codec_env_read_only_def codec_env_brotli_def codec_env_lzma_only_def)
  have c: "optimal_compress codec_env_full_disk [7, 7, 7] CompressionOptions_defaults
      = Inr [11, 7, 7, 7]"
    by (rule o)
      (simp_all add: codec_env_full_disk_def codec_env_brotli_def codec_env_lzma_only_def)
  have f1: "output_fault codec_env_read_only ''a.bin.pfc''
      = OpenFault (OSError ''[Errno 13] Permission denied'')"
    by (simp add: codec_env_read_only_def)
  have f2: "output_fault codec_env_full_disk ''a.bin.pfc''
      = WriteFault 6 (OSError ''[Errno 28] No space left on device'')"
    by (simp add: codec_env_full_disk_def)
  have d: "\<not> success (fst (CustomCompressor_compress codec_env_read_only ''a.bin''
          CompressionOptions_defaults [''a.bin'' \<mapsto> [7, 7, 7]]))
     \<and> snd (CustomCompressor_compress codec_env_read_only ''a.bin'' CompressionOptions_defaults
         [''a.bin'' \<mapsto> [7, 7, 7]]) ''a.bin.pfc'' = None"
    using f1
    by (simp add: CustomCompressor_compress_def b Let_def CustomCompressor_failure_def
        CompressionResult_new_eq CompressionResult_defaults_def)
  have e: "\<not> success (fst (CustomCompressor_compress codec_env_full_disk ''a.bin''
          CompressionOptions_defaults [''a.bin'' \<mapsto> [7, 7, 7]]))
     \<and> snd (CustomCompressor_compress codec_env_full_disk ''a.bin'' CompressionOptions_defaults
         [''a.bin'' \<mapsto> [7, 7, 7]]) ''a.bin.pfc'' = Some [0x50, 0x46, 0x43, 0x01, 3, 0]"
    using f2
    by (simp add: CustomCompressor_compress_def c Let_def CustomCompressor_failure_def
        CompressionResult_new_eq CompressionResult_defaults_def pack_I_def PFC_MAGIC_def)
  from a d e show ?thesis by simp
qed

text \<open>
  Claim C6, as stated, at two concrete inputs on a host without Brotli and with the
  default options (\<open>lzma_preset = 9\<close>). On the empty input the last branch is taken
  and calls LZMA with preset 9, the preset of the first branch, not a lower one. On an
  input of \<open>2 ^ 32\<close> bytes \<^verbatim>\<open>struct.pack\<close> raises after the magic was written:
  compress reports failure and the output file holds the four magic bytes only.
\<close>

theorem adaptive_compress_counterexample:
  "py_or (lzma_preset CompressionOptions_defaults) 9 = 9
   \<and> optimal_compress codec_env_lzma_only [] CompressionOptions_defaults
       = lzma_compress codec_env_lzma_only [] 9
   \<and> \<not> success (fst (CustomCompressor_compress codec_env_lzma_only ''big.bin''
          CompressionOptions_defaults [''big.bin'' \<mapsto> four_gib_of_zeros]))
   \<and> snd (CustomCompressor_compress codec_env_lzma_only ''big.bin'' CompressionOptions_defaults
        [''big.bin'' \<mapsto> four_gib_of_zeros]) ''big.bin.pfc'' = Some PFC_MAGIC"
proof -
  have a: "py_or (lzma_preset CompressionOptions_defaults) 9 = 9
     \<and> optimal_compress codec_env_lzma_only [] CompressionOptions_defaults
         = lzma_compress codec_env_lzma_only [] 9"
    by (simp add: optimal_compress_def codec_env_lzma_only_def
        CompressionOptions_defaults_def py_or_def calculate_repetition_ratio_def Let_def)
  have p: "pack_I (int (length four_gib_of_zeros))
      = Inl (StructError (quoted ''I'' @ '' format requires 0 <= number <= 4294967295''))"
    unfolding length_four_gib by (simp add: pack_I_def)
  have o: "optimal_compress codec_env_lzma_only four_gib_of_zeros CompressionOptions_defaults
       = Inr (9 # four_gib_of_zeros)"
    by (simp add: optimal_compress_def codec_env_lzma_only_def
      CompressionOptions_defaults_def py_or_def Let_def)
  have f: "output_fault codec_env_lzma_only ''big.bin.pfc'' = NoFault"
    by (simp add: codec_env_lzma_only_def)
  have b: "\<not> success (fst (CustomCompressor_compress codec_env_lzma_only ''big.bin''
          CompressionOptions_defaults [''big.bin'' \<mapsto> four_gib_of_zeros]))
     \<and> snd (CustomCompressor_compress codec_env_lzma_only ''big.bin'' CompressionOptions_defaults
        [''big.bin'' \<mapsto> four_gib_of_zeros]) ''big.bin.pfc'' = Some PFC_MAGIC"
    by (simp add: CustomCompressor_compress_def p o f Let_def CustomCompressor_failure_def
        CompressionResult_new_eq CompressionResult_defaults_def)
  from a b show ?thesis by simp
qed

text \<open>
  Claim C6, amended. With the entropy and the repetition ratio as the code computes
  them in floating-point arithmetic, for every input byte string the adaptive
  compressor calls LZMA with preset \<^verbatim>\<open>lzma_preset or 9\<close> when the entropy is below
  6.0 and the repetition ratio exceeds 0.3, otherwise Brotli with quality
  \<^verbatim>\<open>brotli_quality or 11\<close> when Brotli is present and the input is smaller than 1 MiB,
  otherwise LZMA with preset \<^verbatim>\<open>lzma_preset or 6\<close>, which is lower than the first
  branch's preset exactly when \<open>lzma_preset\<close> is 0. For an input shorter than \<open>2 ^ 32\<close>
  bytes on which the chosen library call returns a payload, and an output file
  \<^verbatim>\<open><file>.pfc\<close> that can be opened and written in full, the output file is the 4
  bytes \<^verbatim>\<open>PFC\x01\<close>, then 4 bytes that unpack (little-endian) to the original length,
  then the payload, and compress reports success (the payload, a byte string, being
  shorter than \<open>2 ^ 63\<close>).
\<close>

theorem adaptive_compress_framed:
  assumes present: "fs file_path = Some data"
    and small: "length data < 2 ^ 32"
    and writable: "output_fault env (file_path @ ''.pfc'') = NoFault"
  shows "optimal_compress env data options =
      (if calculate_entropy (float_arith env) data < 6
          \<and> calculate_repetition_ratio (float_arith env) data > double_0_3
       then lzma_compress env data (if lzma_preset options = 0 then 9 else lzma_preset options)
       else if BROTLI_AVAILABLE env \<and> length data < 1048576
       then brotli_compress env data
              (if brotli_quality options = 0 then 11 else brotli_quality options)
       else lzma_compress env data (if lzma_preset options = 0 then 6 else lzma_preset options))
    \<and> (py_or (lzma_preset options) 6 < py_or (lzma_preset options) 9) = (lzma_preset options = 0)
    \<and> (\<forall>payload. optimal_compress env data options = Inr payload \<longrightarrow>
          (\<exists>header.
                snd (CustomCompressor_compress env file_path options fs) (file_path @ ''.pfc'')
                  = Some (PFC_MAGIC @ header @ payload)
                \<and> length header = 4 \<and> unpack_I header = Some (int (length data)))
          \<and> (length payload < 2 ^ 63 \<longrightarrow>
                success (fst (CustomCompressor_compress env file_path options fs))))"
proof (intro conjI allI impI)
  show "optimal_compress env data options =
      (if calculate_entropy (float_arith env) data < 6
          \<and> calculate_repetition_ratio (float_arith env) data > double_0_3
       then lzma_compress env data (if lzma_preset options = 0 then 9 else lzma_preset options)
       else if BROTLI_AVAILABLE env \<and> length data < 1048576
       then brotli_compress env data
              (if brotli_quality options = 0 then 11 else brotli_quality options)
       else lzma_compress env data (if lzma_preset options = 0 then 6 else lzma_preset options))"
    by (simp add: optimal_compress_def py_or_def Let_def)
next
  show "(py_or (lzma_preset options) 6 < py_or (lzma_preset options) 9) = (lzma_preset options = 0)"
    by (simp add: py_or_def)
next
  fix payload
  assume p: "optimal_compress env data options = Inr payload"
  have "0 \<le> int (length data)" by simp
  moreover from small have "int (length data) < 2 ^ 32" by (rule int_length_small)
  ultimately obtain header where h: "pack_I (int (length data)) = Inr header" "length header = 4"
      "unpack_I header = Some (int (length data))"
    using unpack_pack_I [of "int (length data)"] by blast
  show "\<exists>header. snd (CustomCompressor_compress env file_path options fs) (file_path @ ''.pfc'')
                  = Some (PFC_MAGIC @ header @ payload)
                \<and> length header = 4 \<and> unpack_I header = Some (int (length data))"
    using h by (simp add: CustomCompressor_compress_def present p writable Let_def
        split: sum.splits)
  assume "length payload < 2 ^ 63"
  then have "int (length payload) + 8 < 2 ^ 64" by (rule payload_size_small)
  then have built: "CompressionResult_build (float_arith env) True (int (length data))
        (int (length payload) + 8) (clock env) (Some CompressionMethod.CUSTOM)
        (Some (file_path @ ''.pfc'')) None
      = Inr \<lparr>success = True, original_size = int (length data),
             compressed_size = int (length payload) + 8,
             compression_ratio =
               (if int (length data) > 0 \<and> int (length payload) + 8 > 0
                then fl_truediv (float_arith env)
                       (int (length data) - (int (length payload) + 8)) (int (length data))
                else 0),
             compression_time = clock env, method_used = Some CompressionMethod.CUSTOM,
             output_path = Some (file_path @ ''.pfc''), error_message = None,
             warnings = Some []\<rparr>"
    by (rule CompressionResult_build_small)
  show "success (fst (CustomCompressor_compress env file_path options fs))"
    by (simp add: CustomCompressor_compress_def present p writable h built Let_def)
qed

theorem adaptive_compress_framed_witness:
  "optimal_compress codec_env_brotli [7, 7, 7] CompressionOptions_defaults = Inr [11, 7, 7, 7]
   \<and> success (fst (CustomCompressor_compress codec_env_brotli ''a.bin'' CompressionOptions_defaults
         [''a.bin'' \<mapsto> [7, 7, 7]]))
   \<and> snd (CustomCompressor_compress codec_env_brotli ''a.bin'' CompressionOptions_defaults
         [''a.bin'' \<mapsto> [7, 7, 7]]) ''a.bin.pfc''
       = Some [0x50, 0x46, 0x43, 0x01, 3, 0, 0, 0, 11, 7, 7, 7]
   \<and> optimal_compress codec_env_brotli run_of_zeros CompressionOptions_defaults
       = Inr (9 # run_of_zeros)"
proof -
  have r3: "calculate_repetition_ratio exact_floats [7, 7, 7] = 0"
    by (simp add: calculate_repetition_ratio_def)
  have fl: "float_arith codec_env_brotli = exact_floats"
    by (simp add: codec_env_brotli_def codec_env_lzma_only_def)
  have h1: "[''a.bin'' \<mapsto> [7, 7, 7 :: byte]] ''a.bin'' = Some [7, 7, 7]
      \<and> length [7, 7, 7 :: byte] < 2 ^ 32
      \<and> output_fault codec_env_brotli (''a.bin'' @ ''.pfc'') = NoFault"
    by (simp add: codec_env_brotli_def codec_env_lzma_only_def)
  have h2: "[''z.bin'' \<mapsto> run_of_zeros] ''z.bin'' = Some run_of_zeros
      \<and> length run_of_zeros < 2 ^ 32
      \<and> output_fault codec_env_brotli (''z.bin'' @ ''.pfc'') = NoFault"
    by (simp add: run_of_zeros_measures codec_env_brotli_def codec_env_lzma_only_def)
  from adaptive_compress_framed [of "[''a.bin'' \<mapsto> [7, 7, 7]]" "''a.bin''" "[7, 7, 7]"
      codec_env_brotli CompressionOptions_defaults] h1
  have a: "optimal_compress codec_env_brotli [7, 7, 7] CompressionOptions_defaults = Inr [11, 7, 7, 7]"
    and b: "optimal_compress codec_env_brotli [7, 7, 7] CompressionOptions_defaults = Inr [11, 7, 7, 7]
      \<longrightarrow> length [11, 7, 7, 7 :: byte] < 2 ^ 63
      \<longrightarrow> success (fst (CustomCompressor_compress codec_env_brotli ''a.bin''
             CompressionOptions_defaults [''a.bin'' \<mapsto> [7, 7, 7]]))"
    by (simp_all add: fl r3 double_0_3_def codec_env_brotli_def codec_env_lzma_only_def
        CompressionOptions_defaults_def)
  from adaptive_compress_framed [of "[''z.bin'' \<mapsto> run_of_zeros]" "''z.bin''" run_of_zeros
      codec_env_brotli CompressionOptions_defaults] h2
  have c: "optimal_compress codec_env_brotli run_of_zeros CompressionOptions_defaults
       = Inr (9 # run_of_zeros)"
    by (simp add: fl run_of_zeros_measures double_0_3_def codec_env_brotli_def
        codec_env_lzma_only_def CompressionOptions_defaults_def)
  have d: "snd (CustomCompressor_compress codec_env_brotli ''a.bin'' CompressionOptions_defaults
         [''a.bin'' \<mapsto> [7, 7, 7]]) ''a.bin.pfc''
       = Some [0x50, 0x46, 0x43, 0x01, 3, 0, 0, 0, 11, 7, 7, 7]"
    using h1
    by (simp add: CustomCompressor_compress_def a pack_I_def PFC_MAGIC_def Let_def
        split: sum.splits)
  from a b c d show ?thesis by simp
qed

section \<open>Selecting a backend by score\<close>

text \<open>
  Python's \<^verbatim>\<open>max(keys, key=f)\<close>: one pass over the keys in iteration order, a key
  replacing the best so far only when its value is strictly greater. On an empty
  sequence it raises; both callers test for that first.
\<close>

fun py_max_from :: "('a \<Rightarrow> int) \<Rightarrow> 'a \<Rightarrow> 'a list \<Rightarrow> 'a" where
  "py_max_from key best [] = best"
| "py_max_from key best (x # xs) = py_max_from key (if key x > key best then x else best) xs"

definition py_max_key :: "('a \<Rightarrow> int) \<Rightarrow> 'a list \<Rightarrow> py_error + 'a" where
  "py_max_key key xs =
     (case xs of
        [] \<Rightarrow> Inl (ValueError ''max() arg is an empty sequence'')
      | x # rest \<Rightarrow> Inr (py_max_from key x rest))"

subsection \<open>Compression backends\<close>

text \<open>
  \<^verbatim>\<open>_get_file_info\<close> returns a dict with four entries, or the empty dict when
  \<^verbatim>\<open>os.stat\<close> raises: \<open>None\<close> here. The scores read it with \<^verbatim>\<open>.get\<close>.
\<close>

datatype file_type = pe_executable | elf_executable | mach_executable | unknown

record file_info =
  size :: int
  is_executable :: bool
  extension :: string
  type' :: file_type

definition info_size :: "file_info option \<Rightarrow> int" where
  "info_size fi = (case fi of None \<Rightarrow> 0 | Some i \<Rightarrow> size i)"

definition info_is_pe :: "file_info option \<Rightarrow> bool" where
  "info_is_pe fi = (case fi of None \<Rightarrow> False | Some i \<Rightarrow> type' i = pe_executable)"

definition info_is_executable :: "file_info option \<Rightarrow> bool" where
  "info_is_executable fi = (case fi of None \<Rightarrow> False | Some i \<Rightarrow> is_executable i)"

definition info_extension :: "file_info option \<Rightarrow> string" where
  "info_extension fi = (case fi of None \<Rightarrow> [] | Some i \<Rightarrow> extension i)"

definition clamp_score :: "int \<Rightarrow> int" where
  "clamp_score score = min 100 (max 0 score)"

definition UPX_get_score :: "file_info option \<Rightarrow> CompressionOptions \<Rightarrow> int" where
  "UPX_get_score fi options =
     (let score = 50;
          score = (if info_is_pe fi then score + 40
                   else if info_is_executable fi then score + 30 else score);
          score = (if info_size fi > 10 * 1024 * 1024 then score + 10
                   else if info_size fi > 1 * 1024 * 1024 then score + 5 else score);
          score = (if info_size fi < 100 * 1024 then score - 20 else score)
      in clamp_score score)"

definition LZMA_get_score :: "file_info option \<Rightarrow> CompressionOptions \<Rightarrow> int" where
  "LZMA_get_score fi options =
     (let score = 60;
          score = (if info_size fi > 1 * 1024 * 1024 then score + 20 else score);
          score = (if info_is_pe fi then score - 30 else score)
      in clamp_score score)"

definition Brotli_get_score :: "file_info option \<Rightarrow> CompressionOptions \<Rightarrow> int" where
  "Brotli_get_score fi options =
     (let score = 65;
          score = (if info_extension fi \<in> set [''.txt'', ''.js'', ''.css'', ''.html'', ''.json'', ''.xml'']
                   then score + 25 else score);
          score = (if info_is_pe fi then score - 40 else score)
      in clamp_score score)"

definition Custom_get_score :: "file_info option \<Rightarrow> CompressionOptions \<Rightarrow> int" where
  "Custom_get_score fi options =
     (let score = 70;
          score = score + 15;
          score = (if info_size fi > 500 * 1024 then score + 10 else score)
      in clamp_score score)"

text \<open>
  The handler's \<^verbatim>\<open>compressors\<close> dict, in the order it is written; \<^verbatim>\<open>GZIP\<close> and
  \<^verbatim>\<open>AUTO\<close> have no backend. \<^verbatim>\<open>_detect_compressors\<close> keeps that order.
\<close>

definition compressors :: "CompressionMethod list" where
  "compressors = [UPX, LZMA, BROTLI, CompressionMethod.CUSTOM]"

definition detect_compressors :: "(CompressionMethod \<Rightarrow> bool) \<Rightarrow> CompressionMethod list" where
  "detect_compressors is_available = filter is_available compressors"

fun compressor_get_score :: "CompressionMethod \<Rightarrow> file_info option \<Rightarrow> CompressionOptions \<Rightarrow> int" where
  "compressor_get_score UPX fi options = UPX_get_score fi options"
| "compressor_get_score LZMA fi options = LZMA_get_score fi options"
| "compressor_get_score BROTLI fi options = Brotli_get_score fi options"
| "compressor_get_score m fi options = Custom_get_score fi options"

fun CompressionMethod_value :: "CompressionMethod \<Rightarrow> string" where
  "CompressionMethod_value UPX = ''upx''"
| "CompressionMethod_value LZMA = ''lzma''"
| "CompressionMethod_value BROTLI = ''brotli''"
| "CompressionMethod_value GZIP = ''gzip''"
| "CompressionMethod_value CompressionMethod.CUSTOM = ''custom''"
| "CompressionMethod_value AUTO = ''auto''"

text \<open>
  \<^verbatim>\<open>CompressionHandler.select_best_compressor\<close>; \<open>available\<close> is the key list
  of \<^verbatim>\<open>available_compressors\<close>.
\<close>

definition select_best_compressor ::
  "CompressionMethod list \<Rightarrow> file_info option \<Rightarrow> CompressionOptions \<Rightarrow> py_error + CompressionMethod" where
  "select_best_compressor available fi options =
     (if method' options \<noteq> AUTO \<and> method' options \<in> set available then Inr (method' options)
      else if available = [] then Inl (RuntimeError ''Aucun compresseur disponible'')
      else py_max_key (\<lambda>k. compressor_get_score k fi options) available)"

subsection \<open>Compiler backends\<close>

datatype CompilerType = PYINSTALLER | NUITKA | CX_FREEZE

fun CompilerType_value :: "CompilerType \<Rightarrow> string" where
  "CompilerType_value PYINSTALLER = ''pyinstaller''"
| "CompilerType_value NUITKA = ''nuitka''"
| "CompilerType_value CX_FREEZE = ''cx_freeze''"

text \<open>\<^verbatim>\<open>CompilationOptions\<close>, after its \<^verbatim>\<open>__post_init__\<close> (the three lists are lists).\<close>

record CompilationOptions =
  source_path :: string
  output_path :: string
  output_name :: "string option"
  icon_path :: "string option"
  onefile :: bool
  console :: bool
  optimize :: bool
  debug :: bool
  exclude_modules :: "string list"
  hidden_imports :: "string list"
  upx_compress :: bool
  upx_level :: int
  obfuscate :: bool
  encrypt_bytecode :: bool
  preferred_compiler :: "CompilerType option"
  nuitka_standalone :: bool
  pyinstaller_collect_all :: "string list"

definition CompilationOptions_defaults :: "string \<Rightarrow> string \<Rightarrow> CompilationOptions" where
  "CompilationOptions_defaults src out =
     \<lparr>source_path = src, output_path = out, output_name = None, icon_path = None,
      onefile = True, console = False, optimize = True, debug = False,
      exclude_modules = [], hidden_imports = [], upx_compress = False, upx_level = 9,
      obfuscate = False, encrypt_bytecode = False, preferred_compiler = None,
      nuitka_standalone = True, pyinstaller_collect_all = []\<rparr>"

definition PyInstaller_get_score :: "CompilationOptions \<Rightarrow> int" where
  "PyInstaller_get_score options =
     (let score = 70;
          score = score + 15;
          score = (if optimize options then score - 5 else score);
          score = score + 10
      in clamp_score score)"

definition Nuitka_get_score :: "CompilationOptions \<Rightarrow> int" where
  "Nuitka_get_score options =
     (let score = 85;
          score = (if optimize options then score + 10 else score);
          score = (if obfuscate options \<or> encrypt_bytecode options then score + 5 else score);
          score = score - 5
      in clamp_score score)"

definition CxFreeze_get_score :: "CompilationOptions \<Rightarrow> int" where
  "CxFreeze_get_score options =
     (let score = 60;
          score = score + 5;
          score = (if obfuscate options \<or> encrypt_bytecode options then score - 10 else score)
      in clamp_score score)"

fun compiler_get_score :: "CompilerType \<Rightarrow> CompilationOptions \<Rightarrow> int" where
  "compiler_get_score PYINSTALLER options = PyInstaller_get_score options"
| "compiler_get_score NUITKA options = Nuitka_get_score options"
| "compiler_get_score CX_FREEZE options = CxFreeze_get_score options"

text \<open>The engine's \<^verbatim>\<open>compilers\<close> dict, in the order it is written.\<close>

definition compilers :: "CompilerType list" where
  "compilers = [PYINSTALLER, NUITKA, CX_FREEZE]"

definition detect_compilers :: "(CompilerType \<Rightarrow> bool) \<Rightarrow> CompilerType list" where
  "detect_compilers is_available = filter is_available compilers"

text \<open>
  \<^verbatim>\<open>CompilerEngine.select_best_compiler\<close>; \<open>available\<close> is the key list of
  \<^verbatim>\<open>available_compilers\<close>.
\<close>

definition select_best_compiler ::
  "CompilerType list \<Rightarrow> CompilationOptions \<Rightarrow> py_error + CompilerType" where
  "select_best_compiler available options =
     (case preferred_compiler options of
        Some c \<Rightarrow>
          if c \<in> set available then Inr c
          else if available = [] then Inl (RuntimeError ''Aucun compilateur disponible'')
          else py_max_key (\<lambda>k. compiler_get_score k options) available
      | None \<Rightarrow>
          if available = [] then Inl (RuntimeError ''Aucun compilateur disponible'')
          else py_max_key (\<lambda>k. compiler_get_score k options) available)"

lemma py_max_from_first:
  "(py_max_from key best xs = best \<and> (\<forall>x\<in>set xs. key x \<le> key best))
   \<or> (\<exists>pre post. xs = pre @ py_max_from key best xs # post
          \<and> key best < key (py_max_from key best xs)
          \<and> (\<forall>x\<in>set pre. key x < key (py_max_from key best xs))
          \<and> (\<forall>x\<in>set post. key x \<le> key (py_max_from key best xs)))"
proof (induction xs arbitrary: best)
  case Nil
  show ?case by simp
next
  case (Cons x xs)
  let ?b = "if key x > key best then x else best"
  let ?r = "py_max_from key ?b xs"
  have r: "py_max_from key best (x # xs) = ?r" by simp
  from Cons.IH [of ?b] consider
      (keep) "?r = ?b" "\<forall>y\<in>set xs. key y \<le> key ?b"
    | (later) pre post where "xs = pre @ ?r # post" "key ?b < key ?r"
        "\<forall>y\<in>set pre. key y < key ?r" "\<forall>y\<in>set post. key y \<le> key ?r"
    by blast
  then show ?case
  proof cases
    case keep
    show ?thesis
    proof (cases "key x > key best")
      case True
      with keep have "x # xs = [] @ ?r # xs" "key best < key ?r" "\<forall>y\<in>set xs. key y \<le> key ?r"
        by simp_all
      then show ?thesis unfolding r by (intro disjI2 exI [of _ "[]"] exI [of _ xs]) simp
    next
      case False
      with keep show ?thesis unfolding r by (intro disjI1) auto
    qed
  next
    case later
    have "x # xs = (x # pre) @ ?r # post" using later(1) by simp
    moreover have "key best < key ?r" using later(2) by (simp split: if_splits)
    moreover have "\<forall>y\<in>set (x # pre). key y < key ?r"
      using later(2,3) by (auto split: if_splits)
    ultimately show ?thesis unfolding r using later(4)
      by (intro disjI2 exI [of _ "x # pre"] exI [of _ post]) simp
  qed
qed

lemma py_max_key_first:
  assumes "xs \<noteq> []"
  shows "\<exists>pre r post. xs = pre @ r # post \<and> py_max_key key xs = Inr r
           \<and> (\<forall>x\<in>set pre. key x < key r) \<and> (\<forall>x\<in>set post. key x \<le> key r)"
proof -
  from assms obtain a rest where xs: "xs = a # rest" by (cases xs) auto
  let ?r = "py_max_from key a rest"
  have m: "py_max_key key xs = Inr ?r" by (simp add: py_max_key_def xs)
  from py_max_from_first [of key a rest] show ?thesis
  proof
    assume h: "?r = a \<and> (\<forall>x\<in>set rest. key x \<le> key a)"
    then have "xs = [] @ ?r # rest" using xs by simp
    with m h show ?thesis by (intro exI [of _ "[]"] exI [of _ ?r] exI [of _ rest]) simp
  next
    assume "\<exists>pre post. rest = pre @ ?r # post \<and> key a < key ?r
          \<and> (\<forall>x\<in>set pre. key x < key ?r) \<and> (\<forall>x\<in>set post. key x \<le> key ?r)"
    then obtain pre post where h: "rest = pre @ ?r # post" "key a < key ?r"
        "\<forall>x\<in>set pre. key x < key ?r" "\<forall>x\<in>set post. key x \<le> key ?r"
      by blast
    then have "xs = (a # pre) @ ?r # post" using xs by simp
    with m h show ?thesis
      by (intro exI [of _ "a # pre"] exI [of _ ?r] exI [of _ post]) simp
  qed
qed

text \<open>
  A 2 MiB Windows executable, for which the UPX backend and the adaptive backend both
  score 95.
\<close>

definition pe_two_mib :: "file_info option" where
  "pe_two_mib = Some \<lparr>size = 2 * 1024 * 1024, is_executable = True, extension = ''.exe'',
                       type' = pe_executable\<rparr>"

text \<open>
  Claim C5, as stated, at two concrete jobs with no preference and every backend
  available. With the default options (\<open>optimize\<close> set, no obfuscation) the
  PyInstaller and Nuitka backends both score 90, the maximum; \<^verbatim>\<open>nuitka\<close> is
  alphabetically first, and the engine selects PyInstaller. For the 2 MiB executable the
  UPX and the adaptive (\<^verbatim>\<open>custom\<close>) backends both score 95, the maximum;
  \<^verbatim>\<open>custom\<close> is alphabetically first, and the handler selects UPX.
\<close>

theorem select_best_tie_counterexample:
  "preferred_compiler (CompilationOptions_defaults ''app.py'' ''dist'') = None
   \<and> compiler_get_score PYINSTALLER (CompilationOptions_defaults ''app.py'' ''dist'') = 90
   \<and> compiler_get_score NUITKA (CompilationOptions_defaults ''app.py'' ''dist'') = 90
   \<and> compiler_get_score CX_FREEZE (CompilationOptions_defaults ''app.py'' ''dist'') = 65
   \<and> NUITKA \<in> set (detect_compilers (\<lambda>c. True))
   \<and> CompilerType_value NUITKA < CompilerType_value PYINSTALLER
   \<and> select_best_compiler (detect_compilers (\<lambda>c. True))
         (CompilationOptions_defaults ''app.py'' ''dist'') = Inr PYINSTALLER
   \<and> method' CompressionOptions_defaults = AUTO
   \<and> compressor_get_score UPX pe_two_mib CompressionOptions_defaults = 95
   \<and> compressor_get_score CompressionMethod.CUSTOM pe_two_mib CompressionOptions_defaults = 95
   \<and> compressor_get_score LZMA pe_two_mib CompressionOptions_defaults = 50
   \<and> compressor_get_score BROTLI pe_two_mib CompressionOptions_defaults = 25
   \<and> CompressionMethod.CUSTOM \<in> set (detect_compressors (\<lambda>c. True))
   \<and> CompressionMethod_value CompressionMethod.CUSTOM < CompressionMethod_value UPX
   \<and> select_best_compressor (detect_compressors (\<lambda>c. True)) pe_two_mib
         CompressionOptions_defaults = Inr UPX"
  by (simp add: select_best_compiler_def detect_compilers_def compilers_def py_max_key_def
      CompilationOptions_defaults_def PyInstaller_get_score_def Nuitka_get_score_def
      CxFreeze_get_score_def clamp_score_def Let_def
      select_best_compressor_def detect_compressors_def compressors_def pe_two_mib_def
      CompressionOptions_defaults_def UPX_get_score_def LZMA_get_score_def Brotli_get_score_def
      Custom_get_score_def info_size_def info_is_pe_def info_is_executable_def info_extension_def)

text \<open>
  Claim C5, amended. For every job with no explicit tool preference and at least one
  available candidate, the scheduler selects an available candidate with the maximum
  score; whenever two or more available candidates share that maximum, the one that
  comes first in the registry's declaration order (the order of \<open>available\<close>:
  pyinstaller, nuitka, cx_freeze for compilers; upx, lzma, brotli, custom for
  compressors) is selected: every candidate before the selected one scores strictly
  less, every candidate after it scores at most as much.
\<close>

theorem select_best_first_maximum:
  "(preferred_compiler options = None \<and> available \<noteq> [] \<longrightarrow>
      (\<exists>pre c post. available = pre @ c # post
          \<and> select_best_compiler available options = Inr c
          \<and> (\<forall>x\<in>set pre. compiler_get_score x options < compiler_get_score c options)
          \<and> (\<forall>x\<in>set post. compiler_get_score x options \<le> compiler_get_score c options)))
   \<and> (method' coptions = AUTO \<and> cavailable \<noteq> [] \<longrightarrow>
      (\<exists>pre m post. cavailable = pre @ m # post
          \<and> select_best_compressor cavailable fi coptions = Inr m
          \<and> (\<forall>x\<in>set pre. compressor_get_score x fi coptions < compressor_get_score m fi coptions)
          \<and> (\<forall>x\<in>set post. compressor_get_score x fi coptions \<le> compressor_get_score m fi coptions)))"
proof (intro conjI impI)
  assume h: "preferred_compiler options = None \<and> available \<noteq> []"
  then have s: "select_best_compiler available options
      = py_max_key (\<lambda>k. compiler_get_score k options) available"
    by (simp add: select_best_compiler_def)
  from h have "available \<noteq> []" by simp
  from py_max_key_first [OF this, of "\<lambda>k. compiler_get_score k options"]
  show "\<exists>pre c post. available = pre @ c # post
          \<and> select_best_compiler available options = Inr c
          \<and> (\<forall>x\<in>set pre. compiler_get_score x options < compiler_get_score c options)
          \<and> (\<forall>x\<in>set post. compiler_get_score x options \<le> compiler_get_score c options)"
    unfolding s by simp
next
  assume h: "method' coptions = AUTO \<and> cavailable \<noteq> []"
  then have s: "select_best_compressor cavailable fi coptions
      = py_max_key (\<lambda>k. compressor_get_score k fi coptions) cavailable"
    by (simp add: select_best_compressor_def)
  from h have "cavailable \<noteq> []" by simp
  from py_max_key_first [OF this, of "\<lambda>k. compressor_get_score k fi coptions"]
  show "\<exists>pre m post. cavailable = pre @ m # post
          \<and> select_best_compressor cavailable fi coptions = Inr m
          \<and> (\<forall>x\<in>set pre. compressor_get_score x fi coptions < compressor_get_score m fi coptions)
          \<and> (\<forall>x\<in>set post. compressor_get_score x fi coptions \<le> compressor_get_score m fi coptions)"
    unfolding s by simp
qed

theorem select_best_first_maximum_witness:
  "(\<exists>pre c post. detect_compilers (\<lambda>c. True) = pre @ c # post
       \<and> select_best_compiler (detect_compilers (\<lambda>c. True))
            (CompilationOptions_defaults ''app.py'' ''dist'') = Inr c
       \<and> (\<forall>x\<in>set pre. compiler_get_score x (CompilationOptions_defaults ''app.py'' ''dist'')
                          < compiler_get_score c (CompilationOptions_defaults ''app.py'' ''dist''))
       \<and> (\<forall>x\<in>set post. compiler_get_score x (CompilationOptions_defaults ''app.py'' ''dist'')
                          \<le> compiler_get_score c (CompilationOptions_defaults ''app.py'' ''dist'')))
   \<and> (\<exists>pre m post. detect_compressors (\<lambda>c. True) = pre @ m # post
       \<and> select_best_compressor (detect_compressors (\<lambda>c. True)) pe_two_mib
            CompressionOptions_defaults = Inr m
       \<and> (\<forall>x\<in>set pre. compressor_get_score x pe_two_mib CompressionOptions_defaults
                          < compressor_get_score m pe_two_mib CompressionOptions_defaults)
       \<and> (\<forall>x\<in>set post. compressor_get_score x pe_two_mib CompressionOptions_defaults
                          \<le> compressor_get_score m pe_two_mib CompressionOptions_defaults))
   \<and> select_best_compiler (detect_compilers (\<lambda>c. True))
         (CompilationOptions_defaults ''app.py'' ''dist'') = Inr PYINSTALLER
   \<and> select_best_compressor (detect_compressors (\<lambda>c. True)) pe_two_mib
         CompressionOptions_defaults = Inr UPX"
proof -
  have a: "preferred_compiler (CompilationOptions_defaults ''app.py'' ''dist'') = None
      \<and> detect_compilers (\<lambda>c. True) \<noteq> []"
    by (simp add: CompilationOptions_defaults_def detect_compilers_def compilers_def)
  have b: "method' CompressionOptions_defaults = AUTO \<and> detect_compressors (\<lambda>c. True) \<noteq> []"
    by (simp add: CompressionOptions_defaults_def detect_compressors_def compressors_def)
  have c: "select_best_compiler (detect_compilers (\<lambda>c. True))
         (CompilationOptions_defaults ''app.py'' ''dist'') = Inr PYINSTALLER"
    by (simp add: select_best_compiler_def detect_compilers_def compilers_def py_max_key_def
      CompilationOptions_defaults_def PyInstaller_get_score_def Nuitka_get_score_def
      CxFreeze_get_score_def clamp_score_def Let_def)
  have d: "select_best_compressor (detect_compressors (\<lambda>c. True)) pe_two_mib
         CompressionOptions_defaults = Inr UPX"
    by (simp add: py_max_key_def clamp_score_def Let_def
      select_best_compressor_def detect_compressors_def compressors_def pe_two_mib_def
      CompressionOptions_defaults_def UPX_get_score_def LZMA_get_score_def Brotli_get_score_def
      Custom_get_score_def info_size_def info_is_pe_def info_is_executable_def info_extension_def)
  from select_best_first_maximum [of "CompilationOptions_defaults ''app.py'' ''dist''"
      "detect_compilers (\<lambda>c. True)" CompressionOptions_defaults "detect_compressors (\<lambda>c. True)"
      pe_two_mib] a b c d
  show ?thesis by blast
qed

section \<open>The compile stage\<close>

text \<open>
  \<^verbatim>\<open>CompilationResult\<close>, after its \<^verbatim>\<open>__post_init__\<close> (\<open>warnings\<close> is a list). The
  field \<open>output_path\<close> of the options is written \<open>CompilationOptions.output_path\<close>
  from here on.
\<close>

record CompilationResult =
  success :: bool
  output_path :: "string option"
  error_message :: "string option"
  warnings :: "string list"
  compilation_time :: real
  file_size :: int
  compiler_used :: "CompilerType option"

text \<open>
  What spawning a backend's command and awaiting it gives: an exception, or the exit
  code with the two captured streams and the paths that exist afterwards (with their
  sizes).
\<close>

datatype spawn_outcome =
    SpawnRaised py_error
  | Finished int "byte list" "byte list" "string \<rightharpoonup> int"

text \<open>
  The host as the compile stage sees it. \<open>makedirs\<close> is
  \<^verbatim>\<open>os.makedirs(path, exist_ok=True)\<close>: \<open>None\<close> when it returns, the exception when
  it raises (the path is an existing regular file, or permission is denied). The
  command line of each backend is a function of the options, so the outcome of running
  it is given per backend and options. \<^verbatim>\<open>pathlib\<close>'s \<^verbatim>\<open>stem\<close>, \<^verbatim>\<open>parent\<close> and
  \<^verbatim>\<open>str(Path(p))\<close> are taken from the host.
\<close>

record compile_env =
  path_exists_before :: "string \<Rightarrow> bool"
  makedirs :: "string \<Rightarrow> py_error option"
  backend_available :: "CompilerType \<Rightarrow> bool"
  spawn :: "CompilerType \<Rightarrow> CompilationOptions \<Rightarrow> spawn_outcome"
  decode_stderr :: "byte list \<Rightarrow> string"
  path_stem :: "string \<Rightarrow> string"
  path_parent :: "string \<Rightarrow> string"
  path_norm :: "string \<Rightarrow> string"
  write_setup :: "py_error option"
  remove_setup :: "py_error option"
  wall_time :: real

text \<open>\<^verbatim>\<open>os.path.join\<close> of two components (POSIX).\<close>

definition os_path_join :: "string \<Rightarrow> string \<Rightarrow> string" where
  "os_path_join a b =
     (if b \<noteq> [] \<and> hd b = CHR ''/'' then b
      else if a = [] \<or> last a = CHR ''/'' then a @ b
      else a @ ''/'' @ b)"

definition endswith :: "string \<Rightarrow> string \<Rightarrow> bool" where
  "endswith s suf = (length suf \<le> length s \<and> drop (length s - length suf) s = suf)"

text \<open>The loop \<^verbatim>\<open>for path in possible_paths: if os.path.exists(path): return path\<close>.\<close>

fun first_existing :: "(string \<Rightarrow> bool) \<Rightarrow> string list \<Rightarrow> string option" where
  "first_existing ex [] = None"
| "first_existing ex (p # ps) = (if ex p then Some p else first_existing ex ps)"

text \<open>\<^verbatim>\<open>options.output_name or Path(options.source_path).stem\<close>.\<close>

definition base_name :: "compile_env \<Rightarrow> CompilationOptions \<Rightarrow> string" where
  "base_name env options =
     (case output_name options of
        None \<Rightarrow> path_stem env (source_path options)
      | Some n \<Rightarrow> if n = [] then path_stem env (source_path options) else n)"

definition PyInstaller_possible_paths :: "compile_env \<Rightarrow> CompilationOptions \<Rightarrow> string list" where
  "PyInstaller_possible_paths env options =
     [os_path_join (CompilationOptions.output_path options) (base_name env options @ ''.exe''),
      os_path_join (CompilationOptions.output_path options) (base_name env options),
      os_path_join ''dist'' (base_name env options @ ''.exe''),
      os_path_join ''dist'' (base_name env options)]"

definition CxFreeze_possible_paths :: "compile_env \<Rightarrow> CompilationOptions \<Rightarrow> string list" where
  "CxFreeze_possible_paths env options =
     [os_path_join (CompilationOptions.output_path options) (base_name env options @ ''.exe''),
      os_path_join (CompilationOptions.output_path options) (base_name env options)]"

text \<open>
  The function \<^verbatim>\<open>_find_output_file\<close> written in \<^verbatim>\<open>NuitkaBackend\<close>. In the source
  its \<^verbatim>\<open>def\<close> is indented under \<^verbatim>\<open>compile\<close>, after the \<^verbatim>\<open>try\<close> statement whose
  every branch returns: it is a local function that is never bound, and no method of
  the class.
\<close>

definition Nuitka_nested_possible_paths :: "compile_env \<Rightarrow> CompilationOptions \<Rightarrow> string list" where
  "Nuitka_nested_possible_paths env options =
     (let dist_dir = (if endswith (CompilationOptions.output_path options) ''.exe''
                      then path_parent env (CompilationOptions.output_path options)
                      else path_norm env (CompilationOptions.output_path options))
      in [os_path_join dist_dir (base_name env options @ ''.exe''),
          os_path_join (os_path_join dist_dir (base_name env options)) (base_name env options @ ''.exe''),
          os_path_join dist_dir (base_name env options),
          os_path_join ''dist'' (base_name env options @ ''.exe''),
          os_path_join (os_path_join ''dist'' (base_name env options)) (base_name env options @ ''.exe'')])"

text \<open>
  The methods each backend class defines, and those of the abstract base class
  \<^verbatim>\<open>CompilerBackend\<close>; \<^verbatim>\<open>name\<close> and \<^verbatim>\<open>logger\<close> are set on the instance.
\<close>

fun class_name :: "CompilerType \<Rightarrow> string" where
  "class_name PYINSTALLER = ''PyInstallerBackend''"
| "class_name NUITKA = ''NuitkaBackend''"
| "class_name CX_FREEZE = ''CxFreezeBackend''"

fun class_methods :: "CompilerType \<Rightarrow> string list" where
  "class_methods PYINSTALLER =
     [''__init__'', ''is_available'', ''get_version'', ''compile'', ''_find_output_file'',
      ''get_score'']"
| "class_methods NUITKA =
     [''__init__'', ''is_available'', ''get_version'', ''compile'', ''get_score'']"
| "class_methods CX_FREEZE =
     [''__init__'', ''is_available'', ''get_version'', ''compile'', ''_generate_setup_script'',
      ''_find_output_file'', ''get_score'']"

definition CompilerBackend_methods :: "string list" where
  "CompilerBackend_methods = [''__init__'', ''is_available'', ''get_version'', ''compile'', ''get_score'']"

definition has_attribute :: "CompilerType \<Rightarrow> string \<Rightarrow> bool" where
  "has_attribute t attr =
     (attr \<in> set [''name'', ''logger''] \<or> attr \<in> set (class_methods t)
      \<or> attr \<in> set CompilerBackend_methods)"

text \<open>
  The call \<^verbatim>\<open>self._find_output_file(options)\<close>: the attribute lookup first, then the
  method of the class.
\<close>

definition call_find_output_file ::
  "compile_env \<Rightarrow> CompilerType \<Rightarrow> CompilationOptions \<Rightarrow> (string \<Rightarrow> bool) \<Rightarrow> py_error + string option" where
  "call_find_output_file env t options ex =
     (if \<not> has_attribute t ''_find_output_file'' then
        Inl (AttributeError (quoted (class_name t) @ '' object has no attribute ''
                               @ quoted ''_find_output_file''))
      else if t = PYINSTALLER then Inr (first_existing ex (PyInstaller_possible_paths env options))
      else Inr (first_existing ex (CxFreeze_possible_paths env options)))"

definition CompilationResult_failure :: "string \<Rightarrow> real \<Rightarrow> CompilerType option \<Rightarrow> CompilationResult" where
  "CompilationResult_failure msg t used =
     \<lparr>success = False, output_path = None, error_message = Some msg, warnings = [],
      compilation_time = t, file_size = 0, compiler_used = used\<rparr>"

text \<open>
  The part of every backend's \<^verbatim>\<open>compile\<close> from the spawn on, inside its
  \<^verbatim>\<open>try ... except Exception as e\<close>.
\<close>

definition compile_body :: "compile_env \<Rightarrow> CompilerType \<Rightarrow> CompilationOptions \<Rightarrow> CompilationResult" where
  "compile_body env t options =
     (case spawn env t options of
        SpawnRaised e \<Rightarrow> CompilationResult_failure (str_of_error e) (wall_time env) (Some t)
      | Finished returncode out err files \<Rightarrow>
          if returncode = 0 then
            (case call_find_output_file env t options (\<lambda>p. files p \<noteq> None) of
               Inl e \<Rightarrow> CompilationResult_failure (str_of_error e) (wall_time env) (Some t)
             | Inr None \<Rightarrow>
                 CompilationResult_failure ''Fichier de sortie introuvable'' (wall_time env) (Some t)
             | Inr (Some output_file) \<Rightarrow>
                 (case files output_file of
                    Some sz \<Rightarrow>
                      if output_file \<noteq> [] then
                        \<lparr>success = True, output_path = Some output_file, error_message = None,
                         warnings = [], compilation_time = wall_time env, file_size = sz,
                         compiler_used = Some t\<rparr>
                      else CompilationResult_failure ''Fichier de sortie introuvable''
                             (wall_time env) (Some t)
                  | None \<Rightarrow>
                      CompilationResult_failure ''Fichier de sortie introuvable''
                        (wall_time env) (Some t)))
          else CompilationResult_failure (decode_stderr env err) (wall_time env) (Some t))"

text \<open>
  \<^verbatim>\<open>compile\<close> of the three backends. The cx_Freeze backend writes a temporary setup
  script first and removes it in a \<^verbatim>\<open>finally\<close>; an exception of either is caught by
  its outer handler.
\<close>

fun backend_compile :: "compile_env \<Rightarrow> CompilerType \<Rightarrow> CompilationOptions \<Rightarrow> CompilationResult" where
  "backend_compile env PYINSTALLER options = compile_body env PYINSTALLER options"
| "backend_compile env NUITKA options = compile_body env NUITKA options"
| "backend_compile env CX_FREEZE options =
     (case write_setup env of
        Some e \<Rightarrow> CompilationResult_failure (str_of_error e) (wall_time env) (Some CX_FREEZE)
      | None \<Rightarrow>
          (case remove_setup env of
             Some e \<Rightarrow> CompilationResult_failure (str_of_error e) (wall_time env) (Some CX_FREEZE)
           | None \<Rightarrow> compile_body env CX_FREEZE options))"

text \<open>
  \<^verbatim>\<open>CompilerEngine.compile\<close>. The existence test and \<^verbatim>\<open>os.makedirs\<close> stand before
  the \<^verbatim>\<open>try\<close>: an exception of \<^verbatim>\<open>os.makedirs\<close> reaches the caller (\<open>Inl\<close>).
\<close>

definition CompilerEngine_compile :: "compile_env \<Rightarrow> CompilationOptions \<Rightarrow> py_error + CompilationResult" where
  "CompilerEngine_compile env options =
     (if \<not> path_exists_before env (source_path options) then
        Inr (CompilationResult_failure (''Fichier source introuvable: '' @ source_path options) 0 None)
      else
        (case makedirs env (CompilationOptions.output_path options) of
           Some e \<Rightarrow> Inl e
         | None \<Rightarrow>
             (case select_best_compiler (detect_compilers (backend_available env)) options of
                Inl e \<Rightarrow> Inr (CompilationResult_failure (str_of_error e) 0 None)
              | Inr t \<Rightarrow> Inr (backend_compile env t options))))"

text \<open>
  A host on which every backend is installed, the source \<^verbatim>\<open>app.py\<close> exists, and each
  tool exits with code 0 leaving \<^verbatim>\<open>dist/app.exe\<close> (1000 bytes); the same host when the
  requested output directory \<^verbatim>\<open>app.py\<close> is an existing regular file; and the same
  host when each tool exits with code 1 and writes nothing to its standard error.
\<close>

definition host_ok :: compile_env where
  "host_ok =
     \<lparr>path_exists_before = (\<lambda>p. p = ''app.py''),
      makedirs = (\<lambda>p. if p = ''app.py'' then Some (FileExistsError ''app.py'') else None),
      backend_available = (\<lambda>t. True),
      spawn = (\<lambda>t options. Finished 0 [] [] [''dist/app.exe'' \<mapsto> 1000]),
      decode_stderr = map (\<lambda>b. char_of (unat b)),
      path_stem = (\<lambda>p. ''app''), path_parent = (\<lambda>p. p), path_norm = (\<lambda>p. p),
      write_setup = None, remove_setup = None, wall_time = 1\<rparr>"

definition host_silent_failure :: compile_env where
  "host_silent_failure = host_ok\<lparr>spawn := (\<lambda>t options. Finished 1 [] [] Map.empty)\<rparr>"

lemma nuitka_has_no_locator: "\<not> has_attribute NUITKA ''_find_output_file''"
  by (simp add: has_attribute_def CompilerBackend_methods_def)

lemma nuitka_compile_not_success: "\<not> success (backend_compile env NUITKA options)"
  by (simp add: compile_body_def call_find_output_file_def nuitka_has_no_locator
      CompilationResult_failure_def split: spawn_outcome.splits)

text \<open>
  Claim C4 on the code. On the host where the Nuitka child exits with code 0 and
  \<^verbatim>\<open>dist/app.exe\<close> exists, the first existing candidate of the locator written for
  the backend is \<^verbatim>\<open>dist/app.exe\<close>, and \<^verbatim>\<open>NuitkaBackend.compile\<close> returns a failure
  whose error text is the \<^verbatim>\<open>AttributeError\<close> of the lookup of
  \<^verbatim>\<open>_find_output_file\<close>; on every host and for every job the backend's result has
  \<open>success = False\<close>.
\<close>

theorem nuitka_compile_exit_zero_fails:
  "\<not> success (backend_compile env NUITKA options)
   \<and> spawn host_ok NUITKA (CompilationOptions_defaults ''app.py'' ''dist'')
       = Finished 0 [] [] [''dist/app.exe'' \<mapsto> 1000]
   \<and> first_existing (\<lambda>p. [''dist/app.exe'' \<mapsto> (1000::int)] p \<noteq> None)
         (Nuitka_nested_possible_paths host_ok (CompilationOptions_defaults ''app.py'' ''dist''))
       = Some ''dist/app.exe''
   \<and> backend_compile host_ok NUITKA (CompilationOptions_defaults ''app.py'' ''dist'')
       = CompilationResult_failure
           (quoted ''NuitkaBackend'' @ '' object has no attribute '' @ quoted ''_find_output_file'')
           1 (Some NUITKA)"
proof -
  have a: "spawn host_ok NUITKA (CompilationOptions_defaults ''app.py'' ''dist'')
       = Finished 0 [] [] [''dist/app.exe'' \<mapsto> 1000]"
    by (simp add: host_ok_def)
  have b: "first_existing (\<lambda>p. [''dist/app.exe'' \<mapsto> (1000::int)] p \<noteq> None)
         (Nuitka_nested_possible_paths host_ok (CompilationOptions_defaults ''app.py'' ''dist''))
       = Some ''dist/app.exe''"
    by (simp add: Nuitka_nested_possible_paths_def host_ok_def CompilationOptions_defaults_def
        base_name_def os_path_join_def endswith_def Let_def)
  have c: "backend_compile host_ok NUITKA (CompilationOptions_defaults ''app.py'' ''dist'')
       = CompilationResult_failure
           (quoted ''NuitkaBackend'' @ '' object has no attribute '' @ quoted ''_find_output_file'')
           1 (Some NUITKA)"
    by (simp add: compile_body_def a call_find_output_file_def nuitka_has_no_locator)
       (simp add: host_ok_def)
  from nuitka_compile_not_success a b c show ?thesis by simp
qed

text \<open>
  Claim C2 on the code. \<^verbatim>\<open>CompilerEngine.compile\<close> with an existing source and an
  output directory path that is an existing regular file: \<^verbatim>\<open>os.makedirs\<close> raises
  \<^verbatim>\<open>FileExistsError\<close> before the \<^verbatim>\<open>try\<close>, and the exception reaches the caller.
  With the selected (PyInstaller) child exiting with code 1 and an empty standard error,
  the returned result has \<open>success = False\<close> and the empty string as error text.
\<close>

theorem compile_raises_and_empty_error_text:
  "CompilerEngine_compile host_ok (CompilationOptions_defaults ''app.py'' ''app.py'')
     = Inl (FileExistsError ''app.py'')
   \<and> CompilerEngine_compile host_silent_failure (CompilationOptions_defaults ''app.py'' ''dist'')
     = Inr \<lparr>success = False, output_path = None, error_message = Some [], warnings = [],
            compilation_time = 1, file_size = 0, compiler_used = Some PYINSTALLER\<rparr>"
  by (simp add: CompilerEngine_compile_def host_ok_def host_silent_failure_def
      CompilationOptions_defaults_def select_best_compiler_def detect_compilers_def compilers_def
      py_max_key_def PyInstaller_get_score_def Nuitka_get_score_def CxFreeze_get_score_def
      clamp_score_def Let_def compile_body_def CompilationResult_failure_def)

section \<open>The dependency graph\<close>

text \<open>
  \<^verbatim>\<open>dependency_analyzer.py\<close>. A \<^verbatim>\<open>Dict[str, Set[str]]\<close> is an association list
  in insertion order whose values list the members of the set; the classified graph
  \<^verbatim>\<open>Dict[str, DependencyInfo]\<close> is a map.
\<close>

record DependencyInfo =
  name :: string
  version :: "string option"
  location :: "string option"
  is_builtin :: bool
  is_local :: bool
  is_third_party :: bool
  size_estimate :: int
  required_by :: "string set"
  imported :: "string set"
  sub_dependencies :: "string set"

text \<open>
  The dataclass field \<^verbatim>\<open>imports\<close> is written \<open>imported\<close> (the word is reserved).
  \<^verbatim>\<open>DependencyInfo(name=module_name)\<close> with every other field at its default:
\<close>

definition DependencyInfo_new :: "string \<Rightarrow> DependencyInfo" where
  "DependencyInfo_new module_name =
     \<lparr>name = module_name, version = None, location = None, is_builtin = False,
      is_local = False, is_third_party = False, size_estimate = 0, required_by = {},
      imported = {}, sub_dependencies = {}\<rparr>"

text \<open>
  What the host answers about a module name: whether it is in the built-in or
  standard-library tables, what \<^verbatim>\<open>importlib.util.find_spec\<close> gives (it may raise),
  and the installed distribution's version (\<open>None\<close> for \<^verbatim>\<open>PackageNotFoundError\<close>).
\<close>

datatype find_spec_result = SpecRaises | SpecNone | SpecFound "string option"

record resolver =
  in_stdlib :: "string \<Rightarrow> bool"
  find_spec :: "string \<Rightarrow> find_spec_result"
  dist_version :: "string \<Rightarrow> string option"

definition get_module_info :: "resolver \<Rightarrow> string \<Rightarrow> DependencyInfo" where
  "get_module_info res module_name =
     (let info = DependencyInfo_new module_name in
      if in_stdlib res module_name then info\<lparr>is_builtin := True\<rparr>
      else
        (case find_spec res module_name of
           SpecRaises \<Rightarrow> info
         | SpecNone \<Rightarrow> info
         | SpecFound origin \<Rightarrow>
             (let info = info\<lparr>location := origin\<rparr> in
              case origin of
                None \<Rightarrow> info
              | Some path \<Rightarrow>
                  if path = [] then info
                  else if \<not> sublist ''site-packages'' path then info\<lparr>is_local := True\<rparr>
                  else info\<lparr>is_third_party := True, version := dist_version res module_name\<rparr>)))"

type_synonym dep_dict = "(string \<times> string list) list"

text \<open>\<^verbatim>\<open>merged[module].update(deps)\<close> on a \<^verbatim>\<open>defaultdict(set)\<close>.\<close>

definition dict_update_set :: "dep_dict \<Rightarrow> string \<Rightarrow> string list \<Rightarrow> dep_dict" where
  "dict_update_set d k vs =
     (case map_of d k of
        None \<Rightarrow> d @ [(k, remdups vs)]
      | Some old \<Rightarrow> map (\<lambda>(k', v). if k' = k then (k', List.union old vs) else (k', v)) d)"

definition merge_dependencies :: "dep_dict \<Rightarrow> dep_dict \<Rightarrow> dep_dict" where
  "merge_dependencies static dynamic =
     fold (\<lambda>(module_name, deps) merged. dict_update_set merged module_name deps) dynamic
       (fold (\<lambda>(module_name, deps) merged. dict_update_set merged module_name deps) static [])"

type_synonym graph = "string \<rightharpoonup> DependencyInfo"

text \<open>The first loop of \<^verbatim>\<open>_classify_dependencies\<close>, over \<^verbatim>\<open>all_modules\<close>.\<close>

definition classify_module :: "resolver \<Rightarrow> bool \<Rightarrow> string \<Rightarrow> graph \<Rightarrow> graph" where
  "classify_module res include_stdlib module_name classified =
     (let info = get_module_info res module_name in
      if \<not> include_stdlib \<and> is_builtin info then classified
      else classified(module_name \<mapsto> info))"

text \<open>
  The second loop: \<^verbatim>\<open>if dep in classified: classified[dep].required_by.add(parent)\<close>.
\<close>

definition add_required_by :: "string \<Rightarrow> string \<Rightarrow> graph \<Rightarrow> graph" where
  "add_required_by parent dep classified =
     (case classified dep of
        None \<Rightarrow> classified
      | Some info \<Rightarrow> classified(dep \<mapsto> info\<lparr>required_by := insert parent (required_by info)\<rparr>))"

definition add_relations :: "dep_dict \<Rightarrow> graph \<Rightarrow> graph" where
  "add_relations dependencies classified =
     fold (\<lambda>(parent, deps) c. fold (add_required_by parent) deps c) dependencies classified"

definition all_modules :: "dep_dict \<Rightarrow> string list" where
  "all_modules dependencies = remdups (concat (map snd dependencies))"

definition classify_dependencies :: "resolver \<Rightarrow> dep_dict \<Rightarrow> bool \<Rightarrow> graph" where
  "classify_dependencies res dependencies include_stdlib =
     add_relations dependencies
       (fold (classify_module res include_stdlib) (all_modules dependencies) Map.empty)"

text \<open>
  The graph of \<^verbatim>\<open>analyze_dependencies\<close>, from the import maps the static and the
  dynamic pass return. The later steps leave its keys and every \<open>required_by\<close> as
  they are: \<^verbatim>\<open>_detect_circular_dependencies\<close> only reads the graph and
  \<^verbatim>\<open>_estimate_sizes\<close> assigns \<open>size_estimate\<close> only.
\<close>

definition analyze_dependencies_graph :: "resolver \<Rightarrow> dep_dict \<Rightarrow> dep_dict \<Rightarrow> bool \<Rightarrow> graph" where
  "analyze_dependencies_graph res static dynamic include_stdlib =
     classify_dependencies res (merge_dependencies static dynamic) include_stdlib"

text \<open>
  A host on which \<^verbatim>\<open>os\<close> is a standard-library module and \<^verbatim>\<open>requests\<close> is installed
  under \<^verbatim>\<open>site-packages\<close>; the entry script \<^verbatim>\<open>main.py\<close> imports both.
\<close>

definition resolver_example :: resolver where
  "resolver_example =
     \<lparr>in_stdlib = (\<lambda>m. m = ''os''),
      find_spec = (\<lambda>m. if m = ''requests''
                        then SpecFound (Some ''/usr/lib/python3/site-packages/requests/__init__.py'')
                        else SpecNone),
      dist_version = (\<lambda>m. Some ''2.28.0'')\<rparr>"

definition static_example :: dep_dict where
  "static_example = [(''main'', [''os'', ''requests''])]"

definition dynamic_example :: dep_dict where
  "dynamic_example = [(''__main__'', [''os'', ''requests''])]"

text \<open>The modules that import \<open>m\<close> according to an import map.\<close>

definition importers :: "dep_dict \<Rightarrow> string \<Rightarrow> string set" where
  "importers deps m = {p. \<exists>ds. (p, ds) \<in> set deps \<and> m \<in> set ds}"

lemma classify_fold:
  "fold (classify_module res inc) ms c m =
     (if m \<in> set ms \<and> (inc \<or> \<not> is_builtin (get_module_info res m))
      then Some (get_module_info res m) else c m)"
  by (induction ms arbitrary: c) (auto simp: classify_module_def Let_def)

lemma required_by_union_empty: "info\<lparr>required_by := required_by info \<union> {}\<rparr> = info"
  by simp

lemma add_required_by_lookup:
  "add_required_by p d c m =
     map_option (\<lambda>info. info\<lparr>required_by := required_by info \<union> (if m = d then {p} else {})\<rparr>)
       (c m)"
  by (cases "c d"; cases "c m") (auto simp: add_required_by_def)

lemma fold_add_required_by:
  "fold (add_required_by p) ds c m =
     map_option (\<lambda>info. info\<lparr>required_by := required_by info \<union> (if m \<in> set ds then {p} else {})\<rparr>)
       (c m)"
proof (induction ds arbitrary: c)
  case Nil
  show ?case by (cases "c m") simp_all
next
  case (Cons d ds)
  have "fold (add_required_by p) (d # ds) c m = fold (add_required_by p) ds (add_required_by p d c) m"
    by simp
  also have "\<dots> = map_option
      (\<lambda>info. info\<lparr>required_by := required_by info \<union> (if m \<in> set ds then {p} else {})\<rparr>)
      (add_required_by p d c m)"
    by (rule Cons.IH)
  also have "\<dots> = map_option
      (\<lambda>info. info\<lparr>required_by := required_by info \<union> (if m \<in> set (d # ds) then {p} else {})\<rparr>)
      (c m)"
    unfolding add_required_by_lookup by (cases "c m") auto
  finally show ?case .
qed

lemma add_relations_lookup:
  "add_relations deps c m =
     map_option (\<lambda>info. info\<lparr>required_by :=
        required_by info \<union> {p. \<exists>ds. (p, ds) \<in> set deps \<and> m \<in> set ds}\<rparr>) (c m)"
  unfolding add_relations_def
proof (induction deps arbitrary: c)
  case Nil
  show ?case by (cases "c m") simp_all
next
  case (Cons e deps)
  obtain p ds where e: "e = (p, ds)" by (cases e)
  let ?F = "\<lambda>(parent, deps) c. fold (add_required_by parent) deps c"
  let ?c1 = "fold (add_required_by p) ds c"
  have "fold ?F (e # deps) c m = fold ?F deps ?c1 m"
    by (simp add: e)
  also have "\<dots> = map_option (\<lambda>info. info\<lparr>required_by :=
        required_by info \<union> {q. \<exists>es. (q, es) \<in> set deps \<and> m \<in> set es}\<rparr>) (?c1 m)"
    by (rule Cons.IH)
  also have "?c1 m = map_option
      (\<lambda>info. info\<lparr>required_by := required_by info \<union> (if m \<in> set ds then {p} else {})\<rparr>) (c m)"
    by (rule fold_add_required_by)
  also have "map_option (\<lambda>info. info\<lparr>required_by :=
        required_by info \<union> {q. \<exists>es. (q, es) \<in> set deps \<and> m \<in> set es}\<rparr>)
      (map_option
        (\<lambda>info. info\<lparr>required_by := required_by info \<union> (if m \<in> set ds then {p} else {})\<rparr>) (c m))
     = map_option (\<lambda>info. info\<lparr>required_by :=
        required_by info \<union> {q. \<exists>es. (q, es) \<in> set (e # deps) \<and> m \<in> set es}\<rparr>) (c m)"
  proof (cases "c m")
    case None
    then show ?thesis by simp
  next
    case (Some info)
    have "(required_by info \<union> (if m \<in> set ds then {p} else {}))
          \<union> {q. \<exists>es. (q, es) \<in> set deps \<and> m \<in> set es}
        = required_by info \<union> {q. \<exists>es. (q, es) \<in> set (e # deps) \<and> m \<in> set es}"
      unfolding e by auto
    then show ?thesis using Some by simp
  qed
  finally show ?case .
qed

lemma get_module_info_required_by: "required_by (get_module_info res m) = {}"
  by (simp add: get_module_info_def DependencyInfo_new_def Let_def
      split: find_spec_result.splits option.splits)

lemma map_fst_replace:
  "map fst (map (\<lambda>(k', v). if k' = k then (k', w) else (k', v)) d) = map fst d"
  by (induction d) auto

lemma dict_update_set_distinct:
  "distinct (map fst d) \<Longrightarrow> distinct (map fst (dict_update_set d k vs))"
proof -
  assume d: "distinct (map fst d)"
  show ?thesis
  proof (cases "map_of d k")
    case None
    then have "k \<notin> fst ` set d" by (simp add: map_of_eq_None_iff)
    with d None show ?thesis by (simp add: dict_update_set_def)
  next
    case (Some old)
    with d show ?thesis by (simp add: dict_update_set_def map_fst_replace del: map_map)
  qed
qed

lemma importers_Cons:
  "importers ((p, ds) # deps) m = (if m \<in> set ds then {p} else {}) \<union> importers deps m"
  unfolding importers_def by auto

lemma importers_append:
  "importers (xs @ ys) m = importers xs m \<union> importers ys m"
  unfolding importers_def by auto

lemma replace_absent:
  "k \<notin> fst ` set d \<Longrightarrow> map (\<lambda>(k', v). if k' = k then (k', w) else (k', v)) d = d"
  by (induction d) auto

lemma replace_importers:
  "distinct (map fst d) \<Longrightarrow> map_of d k = Some old \<Longrightarrow>
   importers (map (\<lambda>(k', v). if k' = k then (k', List.union old vs) else (k', v)) d) m
     = importers d m \<union> (if m \<in> set vs then {k} else {})"
proof (induction d)
  case Nil
  then show ?case by simp
next
  case (Cons e d)
  obtain a b where e: "e = (a, b)" by (cases e)
  show ?case
  proof (cases "a = k")
    case True
    with Cons.prems e have old: "old = b" and absent: "k \<notin> fst ` set d" by auto
    from absent have "map (\<lambda>(k', v). if k' = k then (k', List.union old vs) else (k', v)) d = d"
      by (rule replace_absent)
    then show ?thesis using True old by (auto simp: e importers_Cons)
  next
    case False
    with Cons.prems e have "distinct (map fst d)" "map_of d k = Some old" by auto
    from Cons.IH [OF this] show ?thesis using False by (auto simp: e importers_Cons)
  qed
qed

lemma dict_update_set_importers:
  assumes d: "distinct (map fst d)"
  shows "importers (dict_update_set d k vs) m = importers d m \<union> (if m \<in> set vs then {k} else {})"
proof (cases "map_of d k")
  case None
  have "importers [(k, remdups vs)] m = (if m \<in> set vs then {k} else {})"
    unfolding importers_def by auto
  then show ?thesis using None by (simp add: dict_update_set_def importers_append)
next
  case (Some old)
  from replace_importers [OF d Some] show ?thesis by (simp add: dict_update_set_def Some)
qed

lemma fold_update_importers:
  "distinct (map fst d) \<Longrightarrow>
   distinct (map fst (fold (\<lambda>(k, vs) merged. dict_update_set merged k vs) es d))
   \<and> importers (fold (\<lambda>(k, vs) merged. dict_update_set merged k vs) es d) m
       = importers d m \<union> importers es m"
proof (induction es arbitrary: d)
  case Nil
  then show ?case by (simp add: importers_def)
next
  case (Cons e es)
  obtain k vs where e: "e = (k, vs)" by (cases e)
  let ?F = "\<lambda>(k, vs) merged. dict_update_set merged k vs"
  let ?d1 = "dict_update_set d k vs"
  have dd: "distinct (map fst ?d1)"
    using Cons.prems by (rule dict_update_set_distinct)
  have f: "fold ?F (e # es) d = fold ?F es ?d1" by (simp add: e)
  have i: "importers (e # es) m = (if m \<in> set vs then {k} else {}) \<union> importers es m"
    unfolding e importers_def by auto
  have j: "importers ?d1 m = importers d m \<union> (if m \<in> set vs then {k} else {})"
    using Cons.prems by (rule dict_update_set_importers)
  from Cons.IH [OF dd] have ih1: "distinct (map fst (fold ?F es ?d1))"
    and ih2: "importers (fold ?F es ?d1) m = importers ?d1 m \<union> importers es m"
    by simp_all
  have "importers (fold ?F es ?d1) m = importers d m \<union> importers (e # es) m"
    unfolding ih2 i j by (simp only: Un_assoc)
  with ih1 show ?case unfolding f by simp
qed

lemma merge_importers:
  "importers (merge_dependencies static dynamic) m = importers static m \<union> importers dynamic m"
proof -
  let ?s = "fold (\<lambda>(k, vs) merged. dict_update_set merged k vs) static []"
  have s: "distinct (map fst ?s) \<and> importers ?s m = importers [] m \<union> importers static m"
    by (rule fold_update_importers) simp
  then have "importers (fold (\<lambda>(k, vs) merged. dict_update_set merged k vs) dynamic ?s) m
       = importers ?s m \<union> importers dynamic m"
    using fold_update_importers [of ?s dynamic m] by simp
  with s show ?thesis by (simp add: merge_dependencies_def importers_def)
qed

lemma get_module_info_is_builtin: "is_builtin (get_module_info res m) = in_stdlib res m"
  by (simp add: get_module_info_def DependencyInfo_new_def Let_def
      split: find_spec_result.splits option.splits)

lemma all_modules_importers: "m \<in> set (all_modules deps) \<longleftrightarrow> importers deps m \<noteq> {}"
  unfolding all_modules_def importers_def by force

lemma classify_lookup:
  "classify_dependencies res deps inc m =
     (if importers deps m \<noteq> {} \<and> (inc \<or> \<not> is_builtin (get_module_info res m))
      then Some ((get_module_info res m)\<lparr>required_by := importers deps m\<rparr>)
      else None)"
  by (simp add: classify_dependencies_def add_relations_lookup classify_fold
      get_module_info_required_by all_modules_importers importers_def)

lemma analyze_lookup:
  "analyze_dependencies_graph res static dynamic inc m =
     (if importers static m \<union> importers dynamic m \<noteq> {}
         \<and> (inc \<or> \<not> is_builtin (get_module_info res m))
      then Some ((get_module_info res m)
             \<lparr>required_by := importers static m \<union> importers dynamic m\<rparr>)
      else None)"
  unfolding analyze_dependencies_graph_def classify_lookup merge_importers ..

lemma example_importers:
  "importers static_example ''requests'' = {''main''}
   \<and> importers dynamic_example ''requests'' = {''__main__''}
   \<and> importers static_example ''main'' = {} \<and> importers dynamic_example ''main'' = {}
   \<and> importers static_example ''__main__'' = {} \<and> importers dynamic_example ''__main__'' = {}"
  by (simp add: static_example_def dynamic_example_def importers_Cons importers_def)

text \<open>
  Claim C3, as stated, on the example: the node \<^verbatim>\<open>requests\<close> has the entry module's
  names \<^verbatim>\<open>main\<close> (static pass) and \<^verbatim>\<open>__main__\<close> (dynamic pass) in its
  \<open>required_by\<close>, and neither name is a key of the returned graph.
\<close>

theorem required_by_not_keys_counterexample:
  "map_option required_by
       (analyze_dependencies_graph resolver_example static_example dynamic_example False ''requests'')
     = Some {''main'', ''__main__''}
   \<and> analyze_dependencies_graph resolver_example static_example dynamic_example False ''main'' = None
   \<and> analyze_dependencies_graph resolver_example static_example dynamic_example False ''__main__''
       = None"
  by (simp add: analyze_lookup example_importers get_module_info_is_builtin resolver_example_def
      insert_commute)

text \<open>
  Claim C3, amended. For every input program, in the dependency graph returned by
  analyze_dependencies the keys are exactly the modules that some module imports
  (in the static or the dynamic import map) and that the standard-library filter keeps;
  the \<open>required_by\<close> set of a node is exactly the set of modules that import it, so
  every name in it is a key of the static or dynamic import map. Such a name (the entry
  module's in particular) is a key of the graph only when it is itself imported by some
  module.
\<close>

theorem required_by_are_importers:
  "dom (analyze_dependencies_graph res static dynamic inc)
     = {m. importers static m \<union> importers dynamic m \<noteq> {}
           \<and> (inc \<or> \<not> is_builtin (get_module_info res m))}
   \<and> (\<forall>m info. analyze_dependencies_graph res static dynamic inc m = Some info \<longrightarrow>
          required_by info = importers static m \<union> importers dynamic m
          \<and> (\<forall>p\<in>required_by info. p \<in> fst ` set static \<union> fst ` set dynamic))"
proof (intro conjI allI impI)
  show "dom (analyze_dependencies_graph res static dynamic inc)
     = {m. importers static m \<union> importers dynamic m \<noteq> {}
           \<and> (inc \<or> \<not> is_builtin (get_module_info res m))}"
    by (auto simp: analyze_lookup dom_def split: if_splits)
next
  fix m info
  assume g: "analyze_dependencies_graph res static dynamic inc m = Some info"
  then show r: "required_by info = importers static m \<union> importers dynamic m"
    by (auto simp: analyze_lookup split: if_splits)
  show "\<forall>p\<in>required_by info. p \<in> fst ` set static \<union> fst ` set dynamic"
    unfolding r importers_def by force
qed

theorem required_by_are_importers_witness:
  "dom (analyze_dependencies_graph resolver_example static_example dynamic_example False)
     = {''requests''}
   \<and> map_option required_by
       (analyze_dependencies_graph resolver_example static_example dynamic_example False ''requests'')
     = Some (importers static_example ''requests'' \<union> importers dynamic_example ''requests'')
   \<and> importers static_example ''requests'' \<union> importers dynamic_example ''requests''
     = {''main'', ''__main__''}
   \<and> {''main'', ''__main__''} \<subseteq> fst ` set static_example \<union> fst ` set dynamic_example"
proof -
  let ?g = "analyze_dependencies_graph resolver_example static_example dynamic_example False"
  have v: "?g ''requests'' = Some ((get_module_info resolver_example ''requests'')
      \<lparr>required_by := importers static_example ''requests'' \<union> importers dynamic_example ''requests''\<rparr>)"
    by (simp add: analyze_lookup example_importers get_module_info_is_builtin resolver_example_def)
  have i: "importers static_example ''requests'' \<union> importers dynamic_example ''requests''
     = {''main'', ''__main__''}"
    by (simp add: example_importers insert_commute)
  have k: "{''main'', ''__main__''} \<subseteq> fst ` set static_example \<union> fst ` set dynamic_example"
    by (simp add: static_example_def dynamic_example_def)
  from required_by_are_importers [of resolver_example static_example dynamic_example False]
  have d: "dom ?g = {m. importers static_example m \<union> importers dynamic_example m \<noteq> {}
           \<and> \<not> is_builtin (get_module_info resolver_example m)}"
    and r: "required_by ((get_module_info resolver_example ''requests'')
      \<lparr>required_by := importers static_example ''requests'' \<union> importers dynamic_example ''requests''\<rparr>)
        = importers static_example ''requests'' \<union> importers dynamic_example ''requests''"
    using v by simp_all
  have "{m. importers static_example m \<union> importers dynamic_example m \<noteq> {}
           \<and> \<not> is_builtin (get_module_info resolver_example m)} = {''requests''}"
    by (auto simp: static_example_def dynamic_example_def importers_def
        get_module_info_is_builtin resolver_example_def)
  with d have d': "dom ?g = {''requests''}" by simp
  from d' v i k show ?thesis by simp
qed

section \<open>Protection options: default method list per level\<close>

text \<open>\<^verbatim>\<open>protection_manager.py\<close>: the enums and \<^verbatim>\<open>ProtectionOptions\<close>.\<close>

datatype ProtectionLevel = BASIC | INTERMEDIATE | ADVANCED | MAXIMUM

datatype ObfuscationMethod = PYARMOR | CUSTOM | BYTECODE | STRING_ENCODING | CONTROL_FLOW

record ProtectionOptions =
  level :: ProtectionLevel
  methods :: "ObfuscationMethod list"
  obfuscate_names :: bool
  obfuscate_strings :: bool
  encrypt_bytecode :: bool
  add_anti_debug :: bool
  use_pyarmor :: bool
  pyarmor_license :: "string option"
  pyarmor_exclude :: "string list"
  custom_key :: "string option"
  preserve_docstrings :: bool
  obfuscation_depth :: int
  detect_debugger :: bool
  detect_vm :: bool
  integrity_check :: bool

text \<open>
  \<^verbatim>\<open>ProtectionOptions.__post_init__\<close>: \<^verbatim>\<open>if not self.methods\<close> fills the list
  from the level; the last branch is the source's \<^verbatim>\<open>else\<close>.
\<close>

definition ProtectionOptions_post_init :: "ProtectionOptions \<Rightarrow> ProtectionOptions" where
  "ProtectionOptions_post_init self =
     (if methods self = [] then
        (if level self = BASIC then self\<lparr>methods := [BYTECODE]\<rparr>
         else if level self = INTERMEDIATE then self\<lparr>methods := [CUSTOM, STRING_ENCODING]\<rparr>
         else if level self = ADVANCED then
           self\<lparr>methods := [CUSTOM, STRING_ENCODING, CONTROL_FLOW]\<rparr>
         else self\<lparr>methods := [PYARMOR, CUSTOM, BYTECODE, STRING_ENCODING, CONTROL_FLOW]\<rparr>)
      else self)"

text \<open>
  Claim C7. With no explicit method list the default list is: basic gives bytecode;
  intermediate gives self-obfuscator (\<open>CUSTOM\<close>), string-encode; advanced adds
  control-flow; maximum gives external (\<open>PYARMOR\<close>), self-obfuscator, bytecode,
  string-encode, control-flow. A non-empty explicit list \<open>m # ms\<close> is kept unchanged,
  whatever the level.
\<close>

theorem protection_level_default_methods:
  "methods (ProtectionOptions_post_init (opts\<lparr>level := BASIC, methods := []\<rparr>)) = [BYTECODE]
   \<and> methods (ProtectionOptions_post_init (opts\<lparr>level := INTERMEDIATE, methods := []\<rparr>))
       = [CUSTOM, STRING_ENCODING]
   \<and> methods (ProtectionOptions_post_init (opts\<lparr>level := ADVANCED, methods := []\<rparr>))
       = [CUSTOM, STRING_ENCODING, CONTROL_FLOW]
   \<and> methods (ProtectionOptions_post_init (opts\<lparr>level := MAXIMUM, methods := []\<rparr>))
       = [PYARMOR, CUSTOM, BYTECODE, STRING_ENCODING, CONTROL_FLOW]
   \<and> ProtectionOptions_post_init (opts\<lparr>level := lv, methods := m # ms\<rparr>)
       = opts\<lparr>level := lv, methods := m # ms\<rparr>"
  by (simp add: ProtectionOptions_post_init_def)

section \<open>The protection manager\<close>

record ProtectionResult =
  success :: bool
  protected_files :: "(string \<times> string) list"
  error_message :: "string option"
  warnings :: "string list"
  protection_time :: real
  methods_applied :: "ObfuscationMethod list"
  entropy_increase :: real

text \<open>
  \<open>protected_files\<close> is a dict from original to protected path, kept as an
  association list in insertion order. \<^verbatim>\<open>d.update(other)\<close>:
\<close>

definition dict_set :: "(string \<times> string) list \<Rightarrow> string \<Rightarrow> string \<Rightarrow> (string \<times> string) list" where
  "dict_set d k v =
     (if k \<in> fst ` set d then map (\<lambda>(k', v'). if k' = k then (k', v) else (k', v')) d
      else d @ [(k, v)])"

definition dict_update :: "(string \<times> string) list \<Rightarrow> (string \<times> string) list \<Rightarrow> (string \<times> string) list" where
  "dict_update d other = fold (\<lambda>(k, v) acc. dict_set acc k v) other d"

text \<open>
  The host as the manager sees it: whether the source path exists, which of the
  registered protectors report themselves available, and what each protector's
  \<^verbatim>\<open>protect\<close> returns (or raises) on a path.
\<close>

record protect_env =
  source_exists :: "string \<Rightarrow> bool"
  protector_available :: "ObfuscationMethod \<Rightarrow> bool"
  protect :: "ObfuscationMethod \<Rightarrow> string \<Rightarrow> ProtectionOptions \<Rightarrow> py_error + ProtectionResult"

text \<open>
  The manager's \<^verbatim>\<open>protectors\<close> dict, in the order it is written:
  \<^verbatim>\<open>STRING_ENCODING\<close> and \<^verbatim>\<open>CONTROL_FLOW\<close> have no protector.
\<close>

definition protectors :: "ObfuscationMethod list" where
  "protectors = [PYARMOR, ObfuscationMethod.CUSTOM, BYTECODE]"

definition detect_protectors :: "(ObfuscationMethod \<Rightarrow> bool) \<Rightarrow> ObfuscationMethod list" where
  "detect_protectors is_available = filter is_available protectors"

text \<open>
  The local variables of the loop in \<^verbatim>\<open>protect_code\<close>, and the list of calls to
  \<^verbatim>\<open>protector.protect\<close> made so far (method and path), which records what was
  applied.
\<close>

record loop_state =
  current_path :: string
  all_protected_files :: "(string \<times> string) list"
  all_methods :: "ObfuscationMethod list"
  total_time :: real
  calls :: "(ObfuscationMethod \<times> string) list"

datatype loop_outcome =
    LoopDone loop_state
  | LoopReturned ProtectionResult "(ObfuscationMethod \<times> string) list"
  | LoopRaised py_error "(ObfuscationMethod \<times> string) list"

text \<open>The loop \<^verbatim>\<open>for method in options.methods\<close>, over the methods still to visit.\<close>

fun protect_loop ::
  "protect_env \<Rightarrow> ObfuscationMethod list \<Rightarrow> ProtectionOptions \<Rightarrow> ObfuscationMethod list
     \<Rightarrow> loop_state \<Rightarrow> loop_outcome" where
  "protect_loop env available options [] st = LoopDone st"
| "protect_loop env available options (m # ms) st =
     (if m \<in> set available then
        (let st1 = st\<lparr>calls := calls st @ [(m, current_path st)]\<rparr> in
         case protect env m (current_path st) options of
           Inl e \<Rightarrow> LoopRaised e (calls st1)
         | Inr result \<Rightarrow>
             if success result then
               protect_loop env available options ms
                 (st1\<lparr>all_protected_files :=
                         dict_update (all_protected_files st) (protected_files result),
                      all_methods := all_methods st @ methods_applied result,
                      total_time := total_time st + protection_time result,
                      current_path :=
                        (case protected_files result of
                           [] \<Rightarrow> current_path st
                         | kv # rest \<Rightarrow> snd kv)\<rparr>)
             else LoopReturned result (calls st1))
      else protect_loop env available options ms st)"

definition ProtectionResult_failure :: "string \<Rightarrow> ProtectionResult" where
  "ProtectionResult_failure msg =
     \<lparr>success = False, protected_files = [], error_message = Some msg, warnings = [],
      protection_time = 0, methods_applied = [], entropy_increase = 0\<rparr>"

text \<open>
  The \<^verbatim>\<open>try\<close> block of \<^verbatim>\<open>protect_code\<close> with its handler, as a function of the
  list its loop runs over: the result and the calls made.
\<close>

definition protect_methods ::
  "protect_env \<Rightarrow> string \<Rightarrow> ProtectionOptions \<Rightarrow> ObfuscationMethod list
     \<Rightarrow> ProtectionResult \<times> (ObfuscationMethod \<times> string) list" where
  "protect_methods env src_path options ms =
     (case protect_loop env (detect_protectors (protector_available env)) options ms
             \<lparr>current_path = src_path, all_protected_files = [], all_methods = [],
              total_time = 0, calls = []\<rparr> of
        LoopDone st \<Rightarrow>
          (\<lparr>success = True, protected_files = all_protected_files st, error_message = None,
            warnings = [], protection_time = total_time st,
            methods_applied = all_methods st, entropy_increase = 0\<rparr>, calls st)
      | LoopReturned result made \<Rightarrow> (result, made)
      | LoopRaised e made \<Rightarrow> (ProtectionResult_failure (str_of_error e), made))"

text \<open>
  \<^verbatim>\<open>ProtectionManager.protect_code\<close>, from the options as the caller's level and
  keyword arguments give them (before \<^verbatim>\<open>__post_init__\<close>); the loop runs over
  \<^verbatim>\<open>options.methods\<close>. The last two letters of the first message are the UTF-8
  bytes of the accented e.
\<close>

definition protect_code ::
  "protect_env \<Rightarrow> string \<Rightarrow> ProtectionOptions
     \<Rightarrow> ProtectionResult \<times> (ObfuscationMethod \<times> string) list" where
  "protect_code env src_path given =
     (if \<not> source_exists env src_path then
        (ProtectionResult_failure
           (''Fichier/dossier non trouv'' @ [CHR 0xC3, CHR 0xA9] @ '': '' @ src_path), [])
      else
        (let options = ProtectionOptions_post_init given
         in protect_methods env src_path options (methods options)))"

text \<open>The options' defaults, before \<^verbatim>\<open>__post_init__\<close>, for a level.\<close>

definition ProtectionOptions_defaults :: "ProtectionLevel \<Rightarrow> ProtectionOptions" where
  "ProtectionOptions_defaults lv =
     \<lparr>level = lv, methods = [], obfuscate_names = True, obfuscate_strings = True,
      encrypt_bytecode = False, add_anti_debug = False, use_pyarmor = False,
      pyarmor_license = None, pyarmor_exclude = [], custom_key = None,
      preserve_docstrings = False, obfuscation_depth = 3, detect_debugger = False,
      detect_vm = False, integrity_check = False\<rparr>"

text \<open>
  A host with PyArmor installed and no crypto library, so that the bytecode encryptor
  is unavailable. PyArmor protects a file into \<^verbatim>\<open><file>.protected\<close>. The self-obfuscator
  reports itself available and fails on every file: \<^verbatim>\<open>_obfuscate_file\<close> holds an
  \<^verbatim>\<open>import ast\<close>, which makes \<^verbatim>\<open>ast\<close> a local name of the whole function, and
  its first use of \<^verbatim>\<open>ast\<close> stands before that import (the message is that of
  CPython 3.11). The second host is the same when the source path does not exist.
\<close>

definition host_pyarmor :: protect_env where
  "host_pyarmor =
     \<lparr>source_exists = (\<lambda>p. p = ''/src/app.py''),
      protector_available = (\<lambda>m. m = PYARMOR \<or> m = ObfuscationMethod.CUSTOM),
      protect = (\<lambda>m p options.
         if m = PYARMOR then
           Inr \<lparr>success = True,
                protected_files = [(p, p @ ''.protected'')],
                error_message = None, warnings = [], protection_time = 1,
                methods_applied = [PYARMOR], entropy_increase = 0\<rparr>
         else if m = ObfuscationMethod.CUSTOM then
           Inr \<lparr>success = False, protected_files = [],
                error_message = Some (''cannot access local variable '' @ quoted ''ast''
                                        @ '' where it is not associated with a value''),
                warnings = [], protection_time = 0, methods_applied = [],
                entropy_increase = 0\<rparr>
         else
           Inr \<lparr>success = False, protected_files = [],
                error_message = Some ''Module cryptographique non disponible'',
                warnings = [], protection_time = 0, methods_applied = [],
                entropy_increase = 0\<rparr>)\<rparr>"

definition host_no_source :: protect_env where
  "host_no_source = host_pyarmor\<lparr>source_exists := (\<lambda>p. False)\<rparr>"

text \<open>The calls made when the loop ends, whichever way it ends.\<close>

fun outcome_calls :: "loop_outcome \<Rightarrow> (ObfuscationMethod \<times> string) list" where
  "outcome_calls (LoopDone st) = calls st"
| "outcome_calls (LoopReturned r made) = made"
| "outcome_calls (LoopRaised e made) = made"

text \<open>The loop ran to its end: every visit went through.\<close>

fun loop_done :: "loop_outcome \<Rightarrow> bool" where
  "loop_done (LoopDone st) = True"
| "loop_done (LoopReturned r made) = False"
| "loop_done (LoopRaised e made) = False"

text \<open>
  The loop does the same on a list and on what is left of it when the unavailable
  methods are taken out.
\<close>

lemma protect_loop_filter:
  "protect_loop env available options ms st
     = protect_loop env available options (filter (\<lambda>m. m \<in> set available) ms) st"
proof (induction ms arbitrary: st)
  case Nil
  show ?case by simp
next
  case (Cons m ms)
  show ?case
  proof (cases "m \<in> set available")
    case False
    with Cons.IH [of st] show ?thesis by simp
  next
    case True
    show ?thesis
    proof (cases "protect env m (current_path st) options")
      case (Inl e)
      with True show ?thesis by (simp add: Let_def)
    next
      case (Inr result)
      show ?thesis
      proof (cases "success result")
        case False
        with True Inr show ?thesis by (simp add: Let_def)
      next
        case ok: True
        let ?st2 = "st\<lparr>calls := calls st @ [(m, current_path st)],
                      all_protected_files :=
                         dict_update (all_protected_files st) (protected_files result),
                      all_methods := all_methods st @ methods_applied result,
                      total_time := total_time st + protection_time result,
                      current_path :=
                        (case protected_files result of
                           [] \<Rightarrow> current_path st
                         | kv # rest \<Rightarrow> snd kv)\<rparr>"
        have "protect_loop env available options (m # ms) st
            = protect_loop env available options ms ?st2"
          using True Inr ok by (simp add: Let_def)
        also have "\<dots> = protect_loop env available options
            (filter (\<lambda>m. m \<in> set available) ms) ?st2"
          by (rule Cons.IH)
        also have "\<dots> = protect_loop env available options
            (filter (\<lambda>m. m \<in> set available) (m # ms)) st"
          using True Inr ok by (simp add: Let_def)
        finally show ?thesis .
      qed
    qed
  qed
qed

text \<open>
  The methods of the calls made are the first of the available methods of the list, in
  the order of the list, and all of them when the loop runs to its end.
\<close>

lemma protect_loop_calls:
  "prefix (map fst (outcome_calls (protect_loop env available options ms st)))
          (map fst (calls st) @ filter (\<lambda>m. m \<in> set available) ms)
   \<and> (loop_done (protect_loop env available options ms st) \<longrightarrow>
        map fst (outcome_calls (protect_loop env available options ms st))
          = map fst (calls st) @ filter (\<lambda>m. m \<in> set available) ms)"
proof (induction ms arbitrary: st)
  case Nil
  show ?case by simp
next
  case (Cons m ms)
  show ?case
  proof (cases "m \<in> set available")
    case False
    with Cons.IH [of st] show ?thesis by simp
  next
    case True
    show ?thesis
    proof (cases "protect env m (current_path st) options")
      case (Inl e)
      with True show ?thesis by (simp add: Let_def)
    next
      case (Inr result)
      show ?thesis
      proof (cases "success result")
        case False
        with True Inr show ?thesis by (simp add: Let_def)
      next
        case ok: True
        let ?st2 = "st\<lparr>calls := calls st @ [(m, current_path st)],
                      all_protected_files :=
                         dict_update (all_protected_files st) (protected_files result),
                      all_methods := all_methods st @ methods_applied result,
                      total_time := total_time st + protection_time result,
                      current_path :=
                        (case protected_files result of
                           [] \<Rightarrow> current_path st
                         | kv # rest \<Rightarrow> snd kv)\<rparr>"
        have step: "protect_loop env available options (m # ms) st
            = protect_loop env available options ms ?st2"
          using True Inr ok by (simp add: Let_def)
        have "map fst (calls ?st2) @ filter (\<lambda>m. m \<in> set available) ms
            = map fst (calls st) @ filter (\<lambda>m. m \<in> set available) (m # ms)"
          using True by simp
        with Cons.IH [of ?st2] show ?thesis unfolding step by simp
      qed
    qed
  qed
qed

lemma protect_loop_none_available:
  "\<forall>m\<in>set ms. m \<notin> set available \<Longrightarrow> protect_loop env available options ms st = LoopDone st"
  by (induction ms arbitrary: st) auto

text \<open>A visit that goes wrong ends the loop with a result that is not a success.\<close>

lemma protect_loop_returned:
  "protect_loop env available options ms st = LoopReturned result made \<Longrightarrow> \<not> success result"
proof (induction ms arbitrary: st)
  case Nil
  then show ?case by simp
next
  case (Cons m ms)
  then show ?case
    by (auto simp: Let_def split: if_splits sum.splits)
qed

lemma protect_methods_calls:
  "snd (protect_methods env src_path options ms)
     = outcome_calls (protect_loop env (detect_protectors (protector_available env)) options ms
         \<lparr>current_path = src_path, all_protected_files = [], all_methods = [],
          total_time = 0, calls = []\<rparr>)"
  by (simp add: protect_methods_def split: loop_outcome.splits)

lemma protect_methods_success:
  "success (fst (protect_methods env src_path options ms))
     = loop_done (protect_loop env (detect_protectors (protector_available env)) options ms
         \<lparr>current_path = src_path, all_protected_files = [], all_methods = [],
          total_time = 0, calls = []\<rparr>)"
  by (auto simp: protect_methods_def ProtectionResult_failure_def
      split: loop_outcome.splits dest: protect_loop_returned)

text \<open>
  Claim C10, as stated, at a source path that does not exist: the only requested
  method (bytecode, for level basic) is unavailable, and \<^verbatim>\<open>protect_code\<close> returns
  \<open>success = False\<close> with an error text.
\<close>

theorem protect_code_missing_source_counterexample:
  "\<not> success (fst (protect_code host_no_source ''/src/app.py'' (ProtectionOptions_defaults BASIC)))
   \<and> error_message (fst (protect_code host_no_source ''/src/app.py''
         (ProtectionOptions_defaults BASIC)))
       = Some (''Fichier/dossier non trouv'' @ [CHR 0xC3, CHR 0xA9] @ '': /src/app.py'')
   \<and> methods (ProtectionOptions_post_init (ProtectionOptions_defaults BASIC)) = [BYTECODE]
   \<and> BYTECODE \<notin> set (detect_protectors (protector_available host_no_source))"
  by (simp add: protect_code_def host_no_source_def host_pyarmor_def ProtectionResult_failure_def
      ProtectionOptions_post_init_def ProtectionOptions_defaults_def detect_protectors_def
      protectors_def)

text \<open>
  Claim C10, amended. For every existing source path and options, \<^verbatim>\<open>protect_code\<close>
  silently skips each requested method that is unavailable: it returns what it would
  return, and makes the calls it would make, were the unavailable methods taken out of
  the requested list (the options handed to the protectors staying as they are). The
  methods of the protectors it calls are the first of the requested methods that are
  available, in the order requested, and all of them when it reports success. When
  none of the requested methods is available it returns \<open>success = True\<close> with an
  empty protected-files map, no applied method and no error, and makes no call.
\<close>

theorem protect_code_skips_unavailable:
  assumes ex: "source_exists env path"
  shows "protect_code env path given
           = protect_methods env path (ProtectionOptions_post_init given)
               (filter (\<lambda>m. m \<in> set (detect_protectors (protector_available env)))
                  (methods (ProtectionOptions_post_init given)))
       \<and> prefix (map fst (snd (protect_code env path given)))
           (filter (\<lambda>m. m \<in> set (detect_protectors (protector_available env)))
              (methods (ProtectionOptions_post_init given)))
       \<and> (success (fst (protect_code env path given)) \<longrightarrow>
            map fst (snd (protect_code env path given))
              = filter (\<lambda>m. m \<in> set (detect_protectors (protector_available env)))
                  (methods (ProtectionOptions_post_init given)))
       \<and> ((\<forall>m\<in>set (methods (ProtectionOptions_post_init given)).
               m \<notin> set (detect_protectors (protector_available env)))
           \<longrightarrow> protect_code env path given
               = (\<lparr>success = True, protected_files = [], error_message = None, warnings = [],
                   protection_time = 0, methods_applied = [], entropy_increase = 0\<rparr>, []))"
proof -
  let ?av = "detect_protectors (protector_available env)"
  let ?opts = "ProtectionOptions_post_init given"
  let ?st0 = "\<lparr>current_path = path, all_protected_files = [], all_methods = [],
                 total_time = 0, calls = []\<rparr>"
  let ?out = "protect_loop env ?av ?opts (methods ?opts) ?st0"
  have code: "protect_code env path given = protect_methods env path ?opts (methods ?opts)"
    using ex by (simp add: protect_code_def Let_def)
  have skip: "protect_methods env path ?opts (methods ?opts)
      = protect_methods env path ?opts (filter (\<lambda>m. m \<in> set ?av) (methods ?opts))"
    unfolding protect_methods_def
    by (simp only: protect_loop_filter [of env ?av ?opts "methods ?opts" ?st0, symmetric])
  have made: "snd (protect_code env path given) = outcome_calls ?out"
    unfolding code by (rule protect_methods_calls)
  have ok: "success (fst (protect_code env path given)) = loop_done ?out"
    unfolding code by (rule protect_methods_success)
  have calls: "prefix (map fst (outcome_calls ?out)) (filter (\<lambda>m. m \<in> set ?av) (methods ?opts))
      \<and> (loop_done ?out \<longrightarrow>
            map fst (outcome_calls ?out) = filter (\<lambda>m. m \<in> set ?av) (methods ?opts))"
    using protect_loop_calls [of env ?av ?opts "methods ?opts" ?st0] by simp
  have none: "protect_code env path given
               = (\<lparr>success = True, protected_files = [], error_message = None, warnings = [],
                   protection_time = 0, methods_applied = [], entropy_increase = 0\<rparr>, [])"
    if "\<forall>m\<in>set (methods ?opts). m \<notin> set ?av"
  proof -
    from that have "?out = LoopDone ?st0" by (rule protect_loop_none_available)
    then show ?thesis unfolding code by (simp add: protect_methods_def)
  qed
  from code skip made ok calls none show ?thesis by simp
qed

text \<open>
  The theorem on the host with PyArmor, for the file \<^verbatim>\<open>/src/app.py\<close>. At level basic
  the one requested method is unavailable. A request for bytecode, PyArmor and
  string-encode is answered as a request for PyArmor alone. At level maximum PyArmor is
  applied, then the self-obfuscator, which fails: the calls are the first two of the
  available requested methods.
\<close>

theorem protect_code_skips_unavailable_witness:
  "protect_code host_pyarmor ''/src/app.py'' (ProtectionOptions_defaults BASIC)
     = (\<lparr>success = True, protected_files = [], error_message = None, warnings = [],
         protection_time = 0, methods_applied = [], entropy_increase = 0\<rparr>, [])
   \<and> protect_code host_pyarmor ''/src/app.py''
       ((ProtectionOptions_defaults BASIC)\<lparr>methods := [BYTECODE, PYARMOR, STRING_ENCODING]\<rparr>)
     = (\<lparr>success = True,
         protected_files = [(''/src/app.py'', ''/src/app.py.protected'')],
         error_message = None, warnings = [], protection_time = 1,
         methods_applied = [PYARMOR], entropy_increase = 0\<rparr>,
        [(PYARMOR, ''/src/app.py'')])
   \<and> snd (protect_code host_pyarmor ''/src/app.py'' (ProtectionOptions_defaults MAXIMUM))
       = [(PYARMOR, ''/src/app.py''), (ObfuscationMethod.CUSTOM, ''/src/app.py.protected'')]
   \<and> \<not> success (fst (protect_code host_pyarmor ''/src/app.py''
          (ProtectionOptions_defaults MAXIMUM)))"
proof -
  have a: "source_exists host_pyarmor ''/src/app.py''"
    by (simp add: host_pyarmor_def)
  have av: "detect_protectors (protector_available host_pyarmor)
      = [PYARMOR, ObfuscationMethod.CUSTOM]"
    by (simp add: detect_protectors_def protectors_def host_pyarmor_def)
  have b: "\<forall>m\<in>set (methods (ProtectionOptions_post_init (ProtectionOptions_defaults BASIC))).
      m \<notin> set (detect_protectors (protector_available host_pyarmor))"
    by (simp add: av ProtectionOptions_post_init_def ProtectionOptions_defaults_def)
  from protect_code_skips_unavailable [OF a, of "ProtectionOptions_defaults BASIC"] b
  have c: "protect_code host_pyarmor ''/src/app.py'' (ProtectionOptions_defaults BASIC)
     = (\<lparr>success = True, protected_files = [], error_message = None, warnings = [],
         protection_time = 0, methods_applied = [], entropy_increase = 0\<rparr>, [])"
    by blast
  have m: "ProtectionOptions_post_init
        ((ProtectionOptions_defaults BASIC)\<lparr>methods := [BYTECODE, PYARMOR, STRING_ENCODING]\<rparr>)
      = (ProtectionOptions_defaults BASIC)\<lparr>methods := [BYTECODE, PYARMOR, STRING_ENCODING]\<rparr>"
    by (simp add: ProtectionOptions_post_init_def)
  from protect_code_skips_unavailable [OF a,
      of "(ProtectionOptions_defaults BASIC)\<lparr>methods := [BYTECODE, PYARMOR, STRING_ENCODING]\<rparr>"]
  have "protect_code host_pyarmor ''/src/app.py''
       ((ProtectionOptions_defaults BASIC)\<lparr>methods := [BYTECODE, PYARMOR, STRING_ENCODING]\<rparr>)
     = protect_methods host_pyarmor ''/src/app.py''
         ((ProtectionOptions_defaults BASIC)\<lparr>methods := [BYTECODE, PYARMOR, STRING_ENCODING]\<rparr>)
         [PYARMOR]"
    by (simp add: m av)
  also have "\<dots> = (\<lparr>success = True,
         protected_files = [(''/src/app.py'', ''/src/app.py.protected'')],
         error_message = None, warnings = [], protection_time = 1,
         methods_applied = [PYARMOR], entropy_increase = 0\<rparr>,
        [(PYARMOR, ''/src/app.py'')])"
    by (simp add: protect_methods_def av Let_def dict_update_def dict_set_def)
      (simp add: host_pyarmor_def dict_update_def dict_set_def)
  finally have d: "protect_code host_pyarmor ''/src/app.py''
       ((ProtectionOptions_defaults BASIC)\<lparr>methods := [BYTECODE, PYARMOR, STRING_ENCODING]\<rparr>)
     = (\<lparr>success = True,
         protected_files = [(''/src/app.py'', ''/src/app.py.protected'')],
         error_message = None, warnings = [], protection_time = 1,
         methods_applied = [PYARMOR], entropy_increase = 0\<rparr>,
        [(PYARMOR, ''/src/app.py'')])" .
  have e: "protect_code host_pyarmor ''/src/app.py'' (ProtectionOptions_defaults MAXIMUM)
     = (\<lparr>success = False, protected_files = [],
         error_message = Some (''cannot access local variable '' @ quoted ''ast''
                                 @ '' where it is not associated with a value''),
         warnings = [], protection_time = 0, methods_applied = [], entropy_increase = 0\<rparr>,
        [(PYARMOR, ''/src/app.py''), (ObfuscationMethod.CUSTOM, ''/src/app.py.protected'')])"
    by (simp add: protect_code_def protect_methods_def av a ProtectionOptions_post_init_def
        ProtectionOptions_defaults_def Let_def)
      (simp add: host_pyarmor_def dict_update_def dict_set_def)
  from c d e show ?thesis by simp
qed

end
